theory Spec2Isabelle
  imports Main
begin

section \<open>Python runtime: exceptions and the random module\<close>

text \<open>
  The exceptions the seeding code can meet. \<open>ValueError\<close> is \<open>random.randint\<close> on an
  empty range, \<open>IndexError\<close> is \<open>random.choice\<close> on an empty sequence or \<open>xs[0]\<close> on
  an empty list, \<open>UniquenessException\<close> is Faker's \<open>unique\<close> proxy giving up,
  \<open>NoResultFound\<close> and \<open>MultipleResultsFound\<close> are raised by \<open>scalar_one\<close> and
  \<open>scalar_one_or_none\<close>, and \<open>DBAPIError\<close> stands for whatever \<open>session.commit()\<close>
  raises (a constraint violation, a lost connection).
\<close>

datatype error =
  ValueError | IndexError | UniquenessException | NoResultFound | MultipleResultsFound | DBAPIError

definition bind :: "error + 'a \<Rightarrow> ('a \<Rightarrow> error + 'b) \<Rightarrow> error + 'b" where
  "bind m f = (case m of Inl e \<Rightarrow> Inl e | Inr x \<Rightarrow> f x)"

text \<open>
  The state of the \<open>random\<close> module is the stream of raw draws still to come. Every value
  \<open>randint(a, b)\<close> or \<open>choice(xs)\<close> can return is returned for some raw draw, so a
  statement for all streams covers every run.
\<close>

type_synonym rng = "nat \<Rightarrow> nat"

definition randint :: "int \<Rightarrow> int \<Rightarrow> rng \<Rightarrow> error + (int \<times> rng)" where
  "randint a b g =
     (if b < a then Inl ValueError
      else Inr (a + int (g 0) mod (b - a + 1), \<lambda>n. g (Suc n)))"

definition choice :: "'a list \<Rightarrow> rng \<Rightarrow> error + ('a \<times> rng)" where
  "choice xs g =
     (if xs = [] then Inl IndexError
      else Inr (xs ! (g 0 mod length xs), \<lambda>n. g (Suc n)))"

section \<open>The mapped classes the seeding code builds and reads\<close>

datatype UserStatus = active | banned | deleted

text \<open>Timestamps are seconds; money (\<open>Numeric(10, 2)\<close>) is counted in hundredths.\<close>

record User =
  email :: string
  phone :: string
  password_hash :: string
  password_algo :: string
  password_changed_at :: int
  preferred_locale :: string
  timezone :: string
  default_currency :: string
  marketing_opt_in :: bool
  terms_accepted_at :: int
  status :: UserStatus
  failed_login_attempts :: int
  lockout_until :: "int option"
  created_at :: int
  updated_at :: int
  last_login_at :: int
  gdpr_erasure_requested_at :: "int option"

record UserAddress =
  user_id :: int
  line1 :: string
  line2 :: "string option"
  city :: string
  state :: string
  postal_code :: string
  country :: string
  is_default_shipping :: bool
  is_default_billing :: bool

record Category =
  parent_id :: "int option"
  name :: string
  slug :: string
  description :: "string option"
  is_active :: bool

record Product =
  name :: string
  sku :: string
  description :: string
  brand :: string
  price :: int
  discount_price :: "int option"
  stock :: int
  is_active :: bool
  slug :: string
  meta_title :: string
  meta_description :: string
  created_at :: int
  updated_at :: int
  categories :: "(int \<times> Category) list"

datatype OrderStatusENUM = PENDING | PAID | SHIPPING | DELIVERED | COMPLETED | CANCELED

record OrderItem =
  product_id :: int
  quantity :: int
  unit_price :: int

record Order =
  user_id :: int
  shipping_address_id :: "int option"
  order_number :: string
  status :: OrderStatusENUM
  total_amount :: int
  is_paid :: bool
  items :: "OrderItem list"

text \<open>
  The database as the seeding code sees it: each table is the list of its rows, a row
  being the primary key \<open>id\<close> the database assigned and the mapped object.
\<close>

record database =
  users :: "(int \<times> User) list"
  user_address :: "(int \<times> UserAddress) list"
  products :: "(int \<times> Product) list"
  categories :: "(int \<times> Category) list"
  orders :: "(int \<times> Order) list"

section \<open>FakeData: utilities\<close>

text \<open>\<open>Result.scalar_one_or_none()\<close> and \<open>Result.scalar_one()\<close> on the rows of a result.\<close>

definition scalar_one_or_none :: "'a list \<Rightarrow> error + 'a option" where
  "scalar_one_or_none rows =
     (case rows of [] \<Rightarrow> Inr None | [x] \<Rightarrow> Inr (Some x) | _ \<Rightarrow> Inl MultipleResultsFound)"

definition scalar_one :: "'a list \<Rightarrow> error + 'a" where
  "scalar_one rows =
     (case rows of [] \<Rightarrow> Inl NoResultFound | [x] \<Rightarrow> Inr x | _ \<Rightarrow> Inl MultipleResultsFound)"

definition check_user_exists :: "database \<Rightarrow> int \<Rightarrow> error + bool" where
  "check_user_exists db uid =
     bind (scalar_one_or_none (filter (\<lambda>u. fst u = uid) (users db)))
       (\<lambda>result. Inr (result \<noteq> None))"

definition check_product_exists :: "database \<Rightarrow> int \<Rightarrow> error + bool" where
  "check_product_exists db pid =
     bind (scalar_one_or_none (filter (\<lambda>p. fst p = pid) (products db)))
       (\<lambda>result. Inr (result \<noteq> None))"

text \<open>\<open>select(func.min(User.id), func.max(User.id))\<close>: both are NULL on an empty table.\<close>

definition get_min_max_user_id :: "database \<Rightarrow> int option \<times> int option" where
  "get_min_max_user_id db =
     (let ids = map fst (users db)
      in if ids = [] then (None, None) else (Some (Min (set ids)), Some (Max (set ids))))"

text \<open>
  The body of \<open>for _ in range(10000)\<close> in \<open>get_random_existing_user_id\<close>, with the
  number of rounds left; falling out of the loop returns \<open>None\<close>.
\<close>

fun probe_user_id :: "nat \<Rightarrow> database \<Rightarrow> int \<Rightarrow> int \<Rightarrow> rng \<Rightarrow> error + (int option \<times> rng)" where
  "probe_user_id 0 db min_id max_id g = Inr (None, g)"
| "probe_user_id (Suc n) db min_id max_id g =
     bind (randint min_id max_id g) (\<lambda>(random_id, g').
     bind (check_user_exists db random_id) (\<lambda>found.
       if found then Inr (Some random_id, g')
       else probe_user_id n db min_id max_id g'))"

definition get_random_existing_user_id :: "database \<Rightarrow> rng \<Rightarrow> error + (int option \<times> rng)" where
  "get_random_existing_user_id db g =
     (case get_min_max_user_id db of
        (Some min_id, Some max_id) \<Rightarrow> probe_user_id 10000 db min_id max_id g
      | _ \<Rightarrow> Inr (None, g))"


section \<open>FakeData: the generators\<close>

text \<open>
  Faker is an external library: \<open>provider c k\<close> is what the \<open>k\<close>-th call of this run
  returns when it is the generator \<open>c\<close>, and \<open>unique c k\<close> the same through the
  \<open>unique\<close> proxy, \<open>None\<close> when the proxy raises \<open>UniquenessException\<close>.
\<close>

datatype faker_call =
  Email | Msisdn | Password nat | CatchPhrase | Bothify string | Company | Slug | Paragraph nat

record Faker =
  provider :: "faker_call \<Rightarrow> nat \<Rightarrow> string"
  unique :: "faker_call \<Rightarrow> nat \<Rightarrow> string option"

record FakeData =
  limitation :: int
  batch_size :: int
  faker :: Faker

definition FakeData_init :: "Faker \<Rightarrow> FakeData" where
  "FakeData_init fk = \<lparr> limitation = 10000, batch_size = 500, faker = fk \<rparr>"



text \<open>
  What the code takes from outside this file: the clock (\<open>now\<close>, and \<open>today\<close> for
  \<open>now\<close> formatted with \<open>%Y%m%d\<close>), \<open>hashlib.sha256(...).hexdigest()\<close>, the lists of
  \<open>DataLists\<close> in the storage module, the outcome of comparing an \<open>OrderStatusENUM\<close>
  member with \<open>OrderStatusENUM.PENDING.value\<close> (it depends on how the enum of the
  storage module is declared), and whether the \<open>c\<close>-th \<open>session.commit()\<close> of a call
  raises.
\<close>

record runtime =
  now :: int
  today :: string
  sha256_hexdigest :: "string \<Rightarrow> string"
  streets :: "string list"
  cities :: "string list"
  states :: "string list"
  countries :: "string list"
  ne_PENDING_value :: "OrderStatusENUM \<Rightarrow> bool"
  commit_raises :: "nat \<Rightarrow> bool"

text \<open>Python's \<open>str\<close> on an int.\<close>

fun digits :: "nat \<Rightarrow> string" where
  "digits n = (if n < 10 then [''0123456789'' ! n] else digits (n div 10) @ [''0123456789'' ! (n mod 10)])"

declare digits.simps [simp del]

definition str :: "int \<Rightarrow> string" where
  "str i = (if i < 0 then CHR ''-'' # digits (nat (- i)) else digits (nat i))"






subsection \<open>create_fake_products\<close>




fun choose_categories_loop :: "nat \<Rightarrow> 'a list \<Rightarrow> 'a list \<Rightarrow> rng \<Rightarrow> error + ('a list \<times> rng)" where
  "choose_categories_loop 0 categories' chosen_c g = Inr (chosen_c, g)"
| "choose_categories_loop (Suc n) categories' chosen_c g =
     bind (choice categories' g) (\<lambda>(c, g).
       choose_categories_loop n categories' (chosen_c @ [c]) g)"






subsection \<open>create_fake_addresses\<close>

definition new_user_address :: "runtime \<Rightarrow> int \<Rightarrow> rng \<Rightarrow> error + (UserAddress \<times> rng)" where
  "new_user_address rt random_user_id g =
     bind (choice (streets rt) g) (\<lambda>(street, g).
     bind (randint 1 144 g) (\<lambda>(house, g).
     bind (randint 1 4 g) (\<lambda>(r, g).
     bind (if r = 3 then bind (choice ''ABCDEFG'' g) (\<lambda>(c, g). Inr ([c], g))
           else Inr ([], g)) (\<lambda>(letter, g).
     bind (randint 0 1 g) (\<lambda>(r, g).
     bind (if r = 0 then bind (randint 1 88 g) (\<lambda>(n, g). Inr (Some (str n), g))
           else Inr (None, g)) (\<lambda>(line2', g).
     bind (choice (cities rt) g) (\<lambda>(city', g).
     bind (choice (states rt) g) (\<lambda>(state', g).
     bind (randint 100000 10000000 g) (\<lambda>(postal, g).
     bind (choice (countries rt) g) (\<lambda>(country', g).
     bind (randint 0 1 g) (\<lambda>(shipping, g).
     bind (randint 0 1 g) (\<lambda>(billing, g).
       Inr (\<lparr> UserAddress.user_id = random_user_id,
              line1 = street @ '' '' @ str house @ letter,
              line2 = line2',
              city = city',
              state = state',
              postal_code = str postal,
              country = country',
              is_default_shipping = (shipping = 1),
              is_default_billing = (billing = 1) \<rparr>, g)))))))))))))"

text \<open>
  \<open>session.add_all(batch); await session.commit()\<close> when the commit goes through: the
  rows get the next primary keys of the table.
\<close>

definition next_id :: "(int \<times> 'a) list \<Rightarrow> int" where
  "next_id rows = (if rows = [] then 1 else Max (set (map fst rows)) + 1)"

definition insert_all :: "(int \<times> 'a) list \<Rightarrow> 'a list \<Rightarrow> (int \<times> 'a) list" where
  "insert_all rows objs =
     rows @ zip (map (\<lambda>i. next_id rows + int i) [0..<length objs]) objs"

definition add_addresses :: "database \<Rightarrow> UserAddress list \<Rightarrow> database" where
  "add_addresses db batch = db\<lparr> user_address := insert_all (user_address db) batch \<rparr>"

text \<open>
  The loop of \<open>create_fake_addresses\<close>. The state is the database as committed so far,
  the number \<open>c\<close> of commits made, the batch and the random state; the result pairs the
  outcome of the loop with the database it leaves. An exception leaves the loop at once
  and nothing catches it.
\<close>

fun addresses_loop ::
  "nat \<Rightarrow> FakeData \<Rightarrow> runtime \<Rightarrow> database \<Rightarrow> nat \<Rightarrow> UserAddress list \<Rightarrow> rng
   \<Rightarrow> (error + (UserAddress list \<times> nat \<times> rng)) \<times> database" where
  "addresses_loop 0 self rt db c batch g = (Inr (batch, c, g), db)"
| "addresses_loop (Suc n) self rt db c batch g =
     (case get_random_existing_user_id db g of
        Inl e \<Rightarrow> (Inl e, db)
      | Inr (None, g) \<Rightarrow> addresses_loop n self rt db c batch g
      | Inr (Some random_user_id, g) \<Rightarrow>
          (let exists_in_db = list_ex (\<lambda>row. UserAddress.user_id (snd row) = random_user_id) (user_address db);
               exists_in_batch = list_ex (\<lambda>address. UserAddress.user_id address = random_user_id) batch
           in if exists_in_db \<or> exists_in_batch then addresses_loop n self rt db c batch g
              else (case new_user_address rt random_user_id g of
                      Inl e \<Rightarrow> (Inl e, db)
                    | Inr (user_address', g) \<Rightarrow>
                        (let batch = batch @ [user_address']
                         in if int (length batch) \<ge> batch_size self
                            then (if commit_raises rt c then (Inl DBAPIError, db)
                                  else addresses_loop n self rt (add_addresses db batch) (Suc c) [] g)
                            else addresses_loop n self rt db c batch g))))"

definition create_fake_addresses ::
  "FakeData \<Rightarrow> runtime \<Rightarrow> database \<Rightarrow> int \<Rightarrow> rng \<Rightarrow> (error + unit) \<times> database" where
  "create_fake_addresses self rt db how_many g =
     (let how_many = min how_many (limitation self)
      in case addresses_loop (nat how_many) self rt db 0 [] g of
           (Inl e, db) \<Rightarrow> (Inl e, db)
         | (Inr (batch, c, g), db) \<Rightarrow>
             if commit_raises rt c then (Inl DBAPIError, db)
             else (Inr (), if batch \<noteq> [] then add_addresses db batch else db))"

subsection \<open>create_fake_orders\<close>

text \<open>
  The inner loop \<open>for _ in range(random.randint(1, max_items_in_order))\<close>, with the
  number of rounds left: each round picks a product id, loads the product and appends
  an item whose \<open>unit_price\<close> is the product's \<open>price\<close>.
\<close>

fun order_items_loop ::
  "nat \<Rightarrow> database \<Rightarrow> int list \<Rightarrow> OrderItem list \<Rightarrow> rng \<Rightarrow> error + (OrderItem list \<times> rng)" where
  "order_items_loop 0 db product_ids order_items g = Inr (order_items, g)"
| "order_items_loop (Suc n) db product_ids order_items g =
     bind (choice product_ids g) (\<lambda>(product_id', g).
     bind (scalar_one (filter (\<lambda>p. fst p = product_id') (products db))) (\<lambda>current_product.
     bind (randint 1 100 g) (\<lambda>(quantity', g).
       order_items_loop n db product_ids
         (order_items @ [\<lparr> product_id = product_id',
                            quantity = quantity',
                            unit_price = price (snd current_product) \<rparr>]) g)))"

text \<open>
  The outer loop, with the number of rounds left and the orders added to the session so
  far. \<open>selectinload(User.addresses)\<close> loads the addresses whose \<open>user_id\<close> is the
  user's id; \<open>continue\<close> is the recursive call with the session as it is.
\<close>

fun orders_loop ::
  "nat \<Rightarrow> runtime \<Rightarrow> database \<Rightarrow> int \<Rightarrow> Order list \<Rightarrow> rng \<Rightarrow> error + (Order list \<times> rng)" where
  "orders_loop 0 rt db max_items_in_order session g = Inr (session, g)"
| "orders_loop (Suc n) rt db max_items_in_order session g =
     bind (get_random_existing_user_id db g) (\<lambda>(random_user_id, g).
       case random_user_id of
         None \<Rightarrow> orders_loop n rt db max_items_in_order session g
       | Some random_user_id \<Rightarrow>
           bind (scalar_one (filter (\<lambda>u. fst u = random_user_id) (users db))) (\<lambda>current_user.
             let addresses =
                   filter (\<lambda>a. UserAddress.user_id (snd a) = fst current_user) (user_address db)
             in if addresses = [] then orders_loop n rt db max_items_in_order session g
                else
                  bind (choice [PENDING, PAID, SHIPPING, DELIVERED, COMPLETED, CANCELED] g)
                    (\<lambda>(order_status_gen, g).
                  bind (randint 100000 999999 g) (\<lambda>(r, g).
                    let order_number' = today rt @ ''-'' @ str (fst current_user) @ ''-'' @ str r;
                        product_ids = map fst (products db)
                    in if product_ids = [] then orders_loop n rt db max_items_in_order session g
                       else
                         bind (randint 1 max_items_in_order g) (\<lambda>(n_items, g).
                         bind (order_items_loop (nat n_items) db product_ids [] g)
                           (\<lambda>(order_items, g).
                           let order =
                                 \<lparr> Order.user_id = random_user_id,
                                   shipping_address_id = Some (fst (hd addresses)),
                                   order_number = order_number',
                                   Order.status = order_status_gen,
                                   total_amount =
                                     sum_list (map (\<lambda>item. unit_price item * quantity item) order_items),
                                   is_paid = ne_PENDING_value rt order_status_gen,
                                   items = order_items \<rparr>
                           in orders_loop n rt db max_items_in_order (session @ [order]) g))))))"

definition add_orders :: "database \<Rightarrow> Order list \<Rightarrow> database" where
  "add_orders db session = db\<lparr> orders := insert_all (orders db) session \<rparr>"

text \<open>
  \<open>create_fake_orders\<close>: one session, one commit at the end. The result pairs what the
  caller gets (nothing, or the exception) with the database the call leaves.
\<close>

definition create_fake_orders ::
  "FakeData \<Rightarrow> runtime \<Rightarrow> database \<Rightarrow> int \<Rightarrow> int \<Rightarrow> rng \<Rightarrow> (error + unit) \<times> database" where
  "create_fake_orders self rt db how_many max_items_in_order g =
     (let how_many = min how_many (limitation self);
          max_items_in_order = min max_items_in_order (limitation self)
      in case orders_loop (nat how_many) rt db max_items_in_order [] g of
           Inl e \<Rightarrow> (Inl e, db)
         | Inr (session, g) \<Rightarrow>
             if commit_raises rt 0 then (Inl DBAPIError, db)
             else (Inr (), add_orders db session))"

text \<open>The orders a call of \<open>create_fake_orders\<close> created: the rows it added to the table.\<close>

definition created_orders :: "database \<Rightarrow> database \<Rightarrow> (int \<times> Order) list" where
  "created_orders db db' = drop (length (orders db)) (orders db')"

section \<open>The mapped classes as declared: columns, constraints, relationships\<close>

text \<open>
  The model classes declare a schema; what a declaration means is given further down by
  the relational engine and the ORM session that read it. The declarations are kept as
  data, one value per class, so that each can be compared with its class.
\<close>

datatype val = Null | IntV int | StrV string | BoolV bool

text \<open>
  Column types. \<open>String None\<close> is \<open>String\<close> without a length. A \<open>Numeric p s\<close> value is
  kept as the integer of its digits (the amount times \<open>10 ^ s\<close>), a \<open>DateTime\<close> as seconds.
\<close>

datatype sqltype =
  Integer | String "nat option" | Text | Boolean | Numeric nat nat | DateTime | Enum "string list"

datatype default_value = NoDefault | Value val | Now

record column =
  cname :: string
  ctype :: sqltype
  primary_key :: bool
  autoincrement :: bool
  unique :: bool
  nullable :: bool
  foreign_key :: "(string \<times> string) option"
  default' :: default_value
  server_default :: default_value

text \<open>
  \<open>mapped_column\<close> with nothing said: an ordinary column. Whether a column is nullable
  is written out at each column below: \<open>nullable=...\<close> where the class says it, otherwise
  what the annotation gives (\<open>Mapped[T]\<close> is NOT NULL, \<open>Mapped[T | None]\<close> is nullable),
  and a primary key column is NOT NULL.
\<close>

definition mapped_column :: "string \<Rightarrow> sqltype \<Rightarrow> column" where
  "mapped_column n t =
     \<lparr> cname = n, ctype = t, primary_key = False, autoincrement = False, unique = False,
       nullable = True, foreign_key = None, default' = NoDefault, server_default = NoDefault \<rparr>"

definition ForeignKey :: "string \<Rightarrow> string \<Rightarrow> (string \<times> string) option" where
  "ForeignKey table key = Some (table, key)"

text \<open>The one SQL expression a check constraint of the schema uses: \<open>column <> literal\<close>.\<close>

datatype sqlexpr = Ne string val

datatype table_arg =
  CheckConstraint sqlexpr string
| UniqueConstraint "string list" string
| Index string "string list"

record relationship =
  rname :: string
  target :: string
  back_populates :: "string option"
  backref :: "string option"
  secondary :: "string option"
  cascade :: "string list"

definition relationship :: "string \<Rightarrow> string \<Rightarrow> relationship" where
  "relationship n t =
     \<lparr> rname = n, target = t, back_populates = None, backref = None, secondary = None,
       cascade = [] \<rparr>"

record mapped_class =
  class_name :: string
  tablename :: string
  columns :: "column list"
  relationships :: "relationship list"
  table_args :: "table_arg list"

text \<open>The \<open>id\<close> column every entity class declares: \<open>mapped_column(primary_key=True, autoincrement=True)\<close>.\<close>

definition id_column :: column where
  "id_column = (mapped_column ''id'' Integer)
     \<lparr> primary_key := True, autoincrement := True, nullable := False \<rparr>"

text \<open>The audit timestamps, set by a Python default or by a server default.\<close>

definition timestamp_default :: "string \<Rightarrow> column" where
  "timestamp_default n = (mapped_column n DateTime)\<lparr> nullable := False, default' := Now \<rparr>"

definition timestamp_server_default :: "string \<Rightarrow> column" where
  "timestamp_server_default n =
     (mapped_column n DateTime)\<lparr> nullable := False, server_default := Now \<rparr>"

definition User_class :: mapped_class where
  "User_class = \<lparr>
     class_name = ''User'',
     tablename = ''users'',
     columns = [
       id_column,
       (mapped_column ''email'' (String (Some 255)))\<lparr> unique := True, nullable := False \<rparr>,
       (mapped_column ''phone'' (String (Some 32)))\<lparr> unique := True, nullable := True \<rparr>,
       (mapped_column ''password_hash'' (String (Some 255)))\<lparr> nullable := False \<rparr>,
       (mapped_column ''password_algo'' (String (Some 50)))\<lparr> nullable := True \<rparr>,
       mapped_column ''password_changed_at'' DateTime,
       (mapped_column ''preferred_locale'' (String (Some 10)))
         \<lparr> nullable := False, server_default := Value (StrV ''en'') \<rparr>,
       (mapped_column ''timezone'' (String (Some 50)))
         \<lparr> nullable := False, server_default := Value (StrV ''UTC'') \<rparr>,
       (mapped_column ''default_currency'' (String (Some 3)))
         \<lparr> nullable := False, server_default := Value (StrV ''USD'') \<rparr>,
       (mapped_column ''marketing_opt_in'' Boolean)
         \<lparr> nullable := False, server_default := Value (BoolV False) \<rparr>,
       mapped_column ''terms_accepted_at'' DateTime,
       (mapped_column ''status'' (Enum [''active'', ''banned'', ''deleted'']))
         \<lparr> nullable := False, server_default := Value (StrV ''active'') \<rparr>,
       (mapped_column ''failed_login_attempts'' Integer)
         \<lparr> nullable := False, server_default := Value (IntV 0) \<rparr>,
       mapped_column ''lockout_until'' DateTime,
       timestamp_server_default ''created_at'',
       timestamp_server_default ''updated_at'',
       mapped_column ''last_login_at'' DateTime,
       mapped_column ''gdpr_erasure_requested_at'' DateTime],
     relationships = [
       (relationship ''orders'' ''Order'')
         \<lparr> back_populates := Some ''user'', cascade := [''all'', ''delete-orphan''] \<rparr>,
       (relationship ''reviews'' ''Review'')
         \<lparr> back_populates := Some ''user'', cascade := [''all'', ''delete-orphan''] \<rparr>,
       (relationship ''payments'' ''Payment'')
         \<lparr> back_populates := Some ''user'', cascade := [''all'', ''delete-orphan''] \<rparr>,
       (relationship ''wishlist'' ''Wishlist'')
         \<lparr> back_populates := Some ''user'', cascade := [''all'', ''delete-orphan''] \<rparr>,
       (relationship ''cart_items'' ''ShoppingCart'')
         \<lparr> back_populates := Some ''user'', cascade := [''all'', ''delete-orphan''] \<rparr>,
       (relationship ''addresses'' ''UserAddress'')
         \<lparr> back_populates := Some ''user'', cascade := [''all'', ''delete-orphan''] \<rparr>],
     table_args = [
       CheckConstraint (Ne ''email'' (StrV [])) ''ck_user_account_email_non_empty'',
       Index ''ix_user_account_created_at'' [''created_at''],
       Index ''ix_user_account_last_login_at'' [''last_login_at''],
       Index ''ix_user_account_status_created_at'' [''status'', ''created_at'']] \<rparr>"

definition Category_class :: mapped_class where
  "Category_class = \<lparr>
     class_name = ''Category'',
     tablename = ''categories'',
     columns = [
       id_column,
       (mapped_column ''parent_id'' Integer)
         \<lparr> foreign_key := ForeignKey ''categories'' ''id'', nullable := True \<rparr>,
       (mapped_column ''name'' (String (Some 255)))\<lparr> nullable := False \<rparr>,
       (mapped_column ''slug'' (String (Some 255)))\<lparr> unique := True, nullable := False \<rparr>,
       mapped_column ''description'' (String (Some 500)),
       (mapped_column ''is_active'' Boolean)\<lparr> default' := Value (BoolV True), nullable := False \<rparr>,
       timestamp_default ''created_at'',
       timestamp_default ''updated_at''],
     relationships = [
       (relationship ''parent'' ''Category'')\<lparr> backref := Some ''children'' \<rparr>,
       (relationship ''products'' ''Product'')
         \<lparr> secondary := Some ''products_categories'', back_populates := Some ''categories'' \<rparr>],
     table_args = [] \<rparr>"

definition Product_class :: mapped_class where
  "Product_class = \<lparr>
     class_name = ''Product'',
     tablename = ''products'',
     columns = [
       id_column,
       (mapped_column ''sku'' (String (Some 50)))\<lparr> unique := True, nullable := False \<rparr>,
       (mapped_column ''name'' (String (Some 255)))\<lparr> nullable := False \<rparr>,
       mapped_column ''description'' Text,
       mapped_column ''brand'' (String (Some 100)),
       (mapped_column ''price'' (Numeric 10 2))\<lparr> nullable := False \<rparr>,
       mapped_column ''discount_price'' (Numeric 10 2),
       (mapped_column ''stock'' Integer)\<lparr> nullable := False, default' := Value (IntV 0) \<rparr>,
       (mapped_column ''is_active'' Boolean)\<lparr> nullable := False, default' := Value (BoolV True) \<rparr>,
       (mapped_column ''slug'' (String (Some 255)))\<lparr> unique := True, nullable := False \<rparr>,
       mapped_column ''meta_title'' (String (Some 255)),
       mapped_column ''meta_description'' (String (Some 500)),
       timestamp_default ''created_at'',
       timestamp_default ''updated_at''],
     relationships = [
       (relationship ''order_items'' ''OrderItem'')
         \<lparr> back_populates := Some ''product'', cascade := [''all'', ''delete-orphan''] \<rparr>,
       (relationship ''reviews'' ''Review'')
         \<lparr> back_populates := Some ''product'', cascade := [''all'', ''delete-orphan''] \<rparr>,
       (relationship ''wishlists'' ''WishlistItem'')\<lparr> back_populates := Some ''product'' \<rparr>,
       (relationship ''categories'' ''Category'')
         \<lparr> secondary := Some ''products_categories'', back_populates := Some ''products'' \<rparr>],
     table_args = [] \<rparr>"

text \<open>The association class: no \<open>id\<close>, both foreign keys are primary key columns.\<close>

definition ProductCategory_class :: mapped_class where
  "ProductCategory_class = \<lparr>
     class_name = ''ProductCategory'',
     tablename = ''products_categories'',
     columns = [
       (mapped_column ''product_id'' Integer)
         \<lparr> foreign_key := ForeignKey ''products'' ''id'', nullable := False, primary_key := True \<rparr>,
       (mapped_column ''category_id'' Integer)
         \<lparr> foreign_key := ForeignKey ''categories'' ''id'', nullable := False, primary_key := True \<rparr>],
     relationships = [],
     table_args = [] \<rparr>"

definition UserAddress_class :: mapped_class where
  "UserAddress_class = \<lparr>
     class_name = ''UserAddress'',
     tablename = ''user_address'',
     columns = [
       id_column,
       (mapped_column ''user_id'' Integer)
         \<lparr> foreign_key := ForeignKey ''users'' ''id'', nullable := False \<rparr>,
       (mapped_column ''line1'' (String (Some 255)))\<lparr> nullable := False \<rparr>,
       mapped_column ''line2'' (String (Some 255)),
       (mapped_column ''city'' (String (Some 100)))\<lparr> nullable := False \<rparr>,
       mapped_column ''state'' (String (Some 100)),
       (mapped_column ''postal_code'' (String (Some 20)))\<lparr> nullable := False \<rparr>,
       (mapped_column ''country'' (String (Some 2)))\<lparr> nullable := False \<rparr>,
       (mapped_column ''is_default_shipping'' Boolean)
         \<lparr> default' := Value (BoolV False), nullable := False \<rparr>,
       (mapped_column ''is_default_billing'' Boolean)
         \<lparr> default' := Value (BoolV False), nullable := False \<rparr>,
       timestamp_default ''created_at'',
       timestamp_default ''updated_at''],
     relationships = [
       (relationship ''user'' ''User'')\<lparr> back_populates := Some ''addresses'' \<rparr>,
       (relationship ''orders'' ''Order'')\<lparr> back_populates := Some ''shipping_address'' \<rparr>],
     table_args = [] \<rparr>"

definition ShoppingCart_class :: mapped_class where
  "ShoppingCart_class = \<lparr>
     class_name = ''ShoppingCart'',
     tablename = ''shopping_cart'',
     columns = [
       id_column,
       (mapped_column ''user_id'' Integer)
         \<lparr> foreign_key := ForeignKey ''users'' ''id'', nullable := False \<rparr>,
       (mapped_column ''product_id'' Integer)
         \<lparr> foreign_key := ForeignKey ''products'' ''id'', nullable := False \<rparr>,
       (mapped_column ''quantity'' Integer)\<lparr> default' := Value (IntV 1), nullable := False \<rparr>,
       timestamp_default ''added_at''],
     relationships = [
       (relationship ''user'' ''User'')\<lparr> back_populates := Some ''cart_items'' \<rparr>,
       relationship ''product'' ''Product''],
     table_args = [
       UniqueConstraint [''user_id'', ''product_id''] ''uix_user_product_cart''] \<rparr>"

definition Wishlist_class :: mapped_class where
  "Wishlist_class = \<lparr>
     class_name = ''Wishlist'',
     tablename = ''wishlists'',
     columns = [
       id_column,
       (mapped_column ''user_id'' Integer)
         \<lparr> foreign_key := ForeignKey ''users'' ''id'', nullable := False \<rparr>,
       (mapped_column ''name'' (String None))\<lparr> nullable := False \<rparr>,
       timestamp_server_default ''created_at'',
       timestamp_server_default ''updated_at''],
     relationships = [
       (relationship ''items'' ''WishlistItem'')
         \<lparr> back_populates := Some ''wishlist'', cascade := [''all'', ''delete-orphan''] \<rparr>,
       (relationship ''user'' ''User'')\<lparr> back_populates := Some ''wishlist'' \<rparr>],
     table_args = [] \<rparr>"

definition WishlistItem_class :: mapped_class where
  "WishlistItem_class = \<lparr>
     class_name = ''WishlistItem'',
     tablename = ''wishlist_items'',
     columns = [
       id_column,
       (mapped_column ''wishlist_id'' Integer)
         \<lparr> foreign_key := ForeignKey ''wishlists'' ''id'', nullable := False \<rparr>,
       (mapped_column ''product_id'' Integer)
         \<lparr> foreign_key := ForeignKey ''products'' ''id'', nullable := False \<rparr>,
       timestamp_default ''created_at'',
       timestamp_default ''updated_at''],
     relationships = [
       (relationship ''wishlist'' ''Wishlist'')\<lparr> back_populates := Some ''items'' \<rparr>,
       (relationship ''product'' ''Product'')\<lparr> back_populates := Some ''wishlists'' \<rparr>],
     table_args = [] \<rparr>"

definition Order_class :: mapped_class where
  "Order_class = \<lparr>
     class_name = ''Order'',
     tablename = ''orders'',
     columns = [
       id_column,
       (mapped_column ''user_id'' Integer)
         \<lparr> foreign_key := ForeignKey ''users'' ''id'', nullable := False \<rparr>,
       (mapped_column ''shipping_address_id'' Integer)
         \<lparr> foreign_key := ForeignKey ''user_address'' ''id'', nullable := True \<rparr>,
       (mapped_column ''order_number'' (String (Some 50)))\<lparr> unique := True, nullable := False \<rparr>,
       (mapped_column ''status'' (String (Some 50)))
         \<lparr> default' := Value (StrV ''pending''), nullable := False \<rparr>,
       (mapped_column ''total_amount'' (Numeric 10 2))\<lparr> nullable := False \<rparr>,
       (mapped_column ''is_paid'' Boolean)\<lparr> default' := Value (BoolV False), nullable := False \<rparr>,
       timestamp_default ''created_at'',
       timestamp_default ''updated_at''],
     relationships = [
       (relationship ''user'' ''User'')\<lparr> back_populates := Some ''orders'' \<rparr>,
       (relationship ''shipping_address'' ''UserAddress'')\<lparr> back_populates := Some ''orders'' \<rparr>,
       (relationship ''items'' ''OrderItem'')
         \<lparr> back_populates := Some ''order'', cascade := [''all'', ''delete-orphan''] \<rparr>,
       (relationship ''payments'' ''Payment'')
         \<lparr> back_populates := Some ''order'', cascade := [''all'', ''delete-orphan''] \<rparr>],
     table_args = [] \<rparr>"

definition OrderItem_class :: mapped_class where
  "OrderItem_class = \<lparr>
     class_name = ''OrderItem'',
     tablename = ''order_items'',
     columns = [
       id_column,
       (mapped_column ''order_id'' Integer)
         \<lparr> foreign_key := ForeignKey ''orders'' ''id'', nullable := False \<rparr>,
       (mapped_column ''product_id'' Integer)
         \<lparr> foreign_key := ForeignKey ''products'' ''id'', nullable := False \<rparr>,
       (mapped_column ''quantity'' Integer)\<lparr> nullable := False, default' := Value (IntV 1) \<rparr>,
       (mapped_column ''unit_price'' (Numeric 10 2))\<lparr> nullable := False \<rparr>,
       timestamp_default ''created_at'',
       timestamp_default ''updated_at''],
     relationships = [
       (relationship ''order'' ''Order'')\<lparr> back_populates := Some ''items'' \<rparr>,
       (relationship ''product'' ''Product'')\<lparr> back_populates := Some ''order_items'' \<rparr>],
     table_args = [] \<rparr>"

definition Payment_class :: mapped_class where
  "Payment_class = \<lparr>
     class_name = ''Payment'',
     tablename = ''payments'',
     columns = [
       id_column,
       (mapped_column ''order_id'' Integer)
         \<lparr> foreign_key := ForeignKey ''orders'' ''id'', nullable := False \<rparr>,
       (mapped_column ''user_id'' Integer)
         \<lparr> foreign_key := ForeignKey ''users'' ''id'', nullable := False \<rparr>,
       (mapped_column ''payment_method'' (String (Some 50)))\<lparr> nullable := False \<rparr>,
       (mapped_column ''amount'' (Numeric 10 2))\<lparr> nullable := False \<rparr>,
       (mapped_column ''status'' (String (Some 50)))
         \<lparr> default' := Value (StrV ''pending''), nullable := False \<rparr>,
       (mapped_column ''transaction_id'' (String (Some 100)))\<lparr> unique := True \<rparr>,
       timestamp_default ''created_at'',
       timestamp_default ''updated_at''],
     relationships = [
       (relationship ''order'' ''Order'')\<lparr> back_populates := Some ''payments'' \<rparr>,
       (relationship ''user'' ''User'')\<lparr> back_populates := Some ''payments'' \<rparr>],
     table_args = [] \<rparr>"

definition Review_class :: mapped_class where
  "Review_class = \<lparr>
     class_name = ''Review'',
     tablename = ''reviews'',
     columns = [
       id_column,
       (mapped_column ''user_id'' Integer)
         \<lparr> foreign_key := ForeignKey ''users'' ''id'', nullable := False \<rparr>,
       (mapped_column ''product_id'' Integer)
         \<lparr> foreign_key := ForeignKey ''products'' ''id'', nullable := False \<rparr>,
       (mapped_column ''rating'' Integer)\<lparr> nullable := False \<rparr>,
       mapped_column ''title'' (String (Some 255)),
       mapped_column ''content'' Text,
       (mapped_column ''is_approved'' Boolean)
         \<lparr> default' := Value (BoolV False), nullable := False \<rparr>,
       timestamp_default ''created_at'',
       timestamp_default ''updated_at''],
     relationships = [
       (relationship ''user'' ''User'')\<lparr> back_populates := Some ''reviews'' \<rparr>,
       (relationship ''product'' ''Product'')\<lparr> back_populates := Some ''reviews'' \<rparr>],
     table_args = [] \<rparr>"

text \<open>The classes of \<open>models/__init__.py\<close>, in the order of its \<open>__all__\<close>.\<close>

definition metadata :: "mapped_class list" where
  "metadata = [Category_class, ProductCategory_class, WishlistItem_class, Order_class,
     OrderItem_class, Payment_class, Product_class, Review_class, ShoppingCart_class,
     User_class, UserAddress_class, Wishlist_class]"

section \<open>What the declarations mean: the relational engine\<close>

text \<open>
  The storage engine and the ORM are outside the repository. What follows is the
  standard meaning of the declarations above: NOT NULL, column types, CHECK, PRIMARY KEY,
  UNIQUE and FOREIGN KEY on an INSERT, and the delete cascade of an ORM session. A row
  maps column names to values; the store maps table names to the rows they hold.
\<close>

type_synonym row = "(string \<times> val) list"

type_synonym store = "string \<Rightarrow> row list"

definition getcol :: "row \<Rightarrow> string \<Rightarrow> val" where
  "getcol r c = (case map_of r c of Some v \<Rightarrow> v | None \<Rightarrow> Null)"

datatype db_error =
  NoSuchTable
| NotNullViolation string
| DataError string
| CheckViolation string
| UniqueViolation string
| ForeignKeyViolation string

definition find_class :: "mapped_class list \<Rightarrow> string \<Rightarrow> mapped_class option" where
  "find_class md cn = find (\<lambda>m. class_name m = cn) md"

definition find_table :: "mapped_class list \<Rightarrow> string \<Rightarrow> mapped_class option" where
  "find_table md tn = find (\<lambda>m. tablename m = tn) md"

subsection \<open>INSERT\<close>

text \<open>Whether a value is one of the column's type; NULL is dealt with by \<open>nullable\<close>.\<close>

fun fits :: "sqltype \<Rightarrow> val \<Rightarrow> bool" where
  "fits t Null = True"
| "fits Integer (IntV i) = (- 2147483648 \<le> i \<and> i \<le> 2147483647)"
| "fits (String None) (StrV s) = True"
| "fits (String (Some n)) (StrV s) = (length s \<le> n)"
| "fits Text (StrV s) = True"
| "fits Boolean (BoolV b) = True"
| "fits (Numeric p s) (IntV i) = (\<bar>i\<bar> < 10 ^ p)"
| "fits DateTime (IntV i) = True"
| "fits (Enum names) (StrV s) = (s \<in> set names)"
| "fits t v = False"

text \<open>
  The key an autoincrement column gets: the next value of its sequence, taken to be one
  more than the largest key in the table (1 in an empty table).
\<close>

definition next_key :: "row list \<Rightarrow> string \<Rightarrow> int" where
  "next_key rows c =
     fold (\<lambda>r m. case getcol r c of IntV i \<Rightarrow> max m (i + 1) | _ \<Rightarrow> m) rows 1"

text \<open>
  The value a column gets on insert: the key for an autoincrement primary key left
  unset, the value given, or else the column's default.
\<close>

definition insert_value :: "int \<Rightarrow> row list \<Rightarrow> row \<Rightarrow> column \<Rightarrow> val" where
  "insert_value now' rows r c =
     (if primary_key c \<and> autoincrement c \<and> getcol r (cname c) = Null
      then IntV (next_key rows (cname c))
      else case map_of r (cname c) of
             Some v \<Rightarrow> v
           | None \<Rightarrow>
               (case default' c of
                  Value v \<Rightarrow> v
                | Now \<Rightarrow> IntV now'
                | NoDefault \<Rightarrow>
                    (case server_default c of
                       Value v \<Rightarrow> v
                     | Now \<Rightarrow> IntV now'
                     | NoDefault \<Rightarrow> Null)))"

definition new_row :: "int \<Rightarrow> mapped_class \<Rightarrow> row list \<Rightarrow> row \<Rightarrow> row" where
  "new_row now' m rows r = map (\<lambda>c. (cname c, insert_value now' rows r c)) (columns m)"

text \<open>The constraints, each giving the violation it finds, if any.\<close>

definition not_null_violation :: "mapped_class \<Rightarrow> row \<Rightarrow> db_error option" where
  "not_null_violation m r =
     map_option (\<lambda>c. NotNullViolation (cname c))
       (find (\<lambda>c. \<not> nullable c \<and> getcol r (cname c) = Null) (columns m))"

definition type_violation :: "mapped_class \<Rightarrow> row \<Rightarrow> db_error option" where
  "type_violation m r =
     map_option (\<lambda>c. DataError (cname c))
       (find (\<lambda>c. \<not> fits (ctype c) (getcol r (cname c))) (columns m))"

text \<open>A CHECK constraint is violated when its expression is false; it passes on NULL.\<close>

fun check_violated :: "row \<Rightarrow> table_arg \<Rightarrow> string option" where
  "check_violated r (CheckConstraint (Ne c v) n) =
     (if getcol r c \<noteq> Null \<and> getcol r c = v then Some n else None)"
| "check_violated r (UniqueConstraint cs n) = None"
| "check_violated r (Index n cs) = None"

definition check_violation :: "mapped_class \<Rightarrow> row \<Rightarrow> db_error option" where
  "check_violation m r =
     map_option CheckViolation (List.find (\<lambda>x. True) (List.map_filter (check_violated r) (table_args m)))"

text \<open>Two rows agree on a list of columns; NULL agrees with nothing.\<close>

definition same_key :: "string list \<Rightarrow> row \<Rightarrow> row \<Rightarrow> bool" where
  "same_key cs r r' = list_all (\<lambda>c. getcol r c \<noteq> Null \<and> getcol r' c = getcol r c) cs"

definition primary_key_columns :: "mapped_class \<Rightarrow> string list" where
  "primary_key_columns m = map cname (filter primary_key (columns m))"

definition primary_key_violation :: "mapped_class \<Rightarrow> row list \<Rightarrow> row \<Rightarrow> db_error option" where
  "primary_key_violation m rows r =
     (if list_ex (same_key (primary_key_columns m) r) rows
      then Some (UniqueViolation (tablename m @ ''_pkey'')) else None)"

definition unique_column_violation :: "mapped_class \<Rightarrow> row list \<Rightarrow> row \<Rightarrow> db_error option" where
  "unique_column_violation m rows r =
     map_option (\<lambda>c. UniqueViolation (cname c))
       (find (\<lambda>c. unique c \<and> list_ex (same_key [cname c] r) rows) (columns m))"

fun unique_violated :: "row list \<Rightarrow> row \<Rightarrow> table_arg \<Rightarrow> string option" where
  "unique_violated rows r (UniqueConstraint cs n) =
     (if list_ex (same_key cs r) rows then Some n else None)"
| "unique_violated rows r (CheckConstraint e n) = None"
| "unique_violated rows r (Index n cs) = None"

definition unique_constraint_violation :: "mapped_class \<Rightarrow> row list \<Rightarrow> row \<Rightarrow> db_error option" where
  "unique_constraint_violation m rows r =
     map_option UniqueViolation
       (List.find (\<lambda>x. True) (List.map_filter (unique_violated rows r) (table_args m)))"

definition foreign_key_violation :: "store \<Rightarrow> mapped_class \<Rightarrow> row \<Rightarrow> db_error option" where
  "foreign_key_violation db m r =
     map_option (\<lambda>c. ForeignKeyViolation (cname c))
       (find (\<lambda>c. case foreign_key c of
                     None \<Rightarrow> False
                   | Some (t, k) \<Rightarrow>
                       getcol r (cname c) \<noteq> Null
                       \<and> \<not> list_ex (\<lambda>p. getcol p k = getcol r (cname c)) (db t))
          (columns m))"

definition first_violation :: "db_error option list \<Rightarrow> db_error option" where
  "first_violation checks = List.find (\<lambda>x. True) (List.map_filter (\<lambda>x. x) checks)"

definition violation :: "store \<Rightarrow> mapped_class \<Rightarrow> row \<Rightarrow> db_error option" where
  "violation db m r =
     first_violation
       [not_null_violation m r,
        type_violation m r,
        check_violation m r,
        primary_key_violation m (db (tablename m)) r,
        unique_column_violation m (db (tablename m)) r,
        unique_constraint_violation m (db (tablename m)) r,
        foreign_key_violation db m r]"

text \<open>
  INSERT of one row into a table: the row as stored and the store with it, or the
  violation and the store as it was.
\<close>

definition insert_row ::
  "mapped_class list \<Rightarrow> int \<Rightarrow> store \<Rightarrow> string \<Rightarrow> row \<Rightarrow> (db_error + row) \<times> store" where
  "insert_row md now' db tn r =
     (case find_table md tn of
        None \<Rightarrow> (Inl NoSuchTable, db)
      | Some m \<Rightarrow>
          (let r' = new_row now' m (db tn) r
           in case violation db m r' of
                Some e \<Rightarrow> (Inl e, db)
              | None \<Rightarrow> (Inr r', db(tn := db tn @ [r']))))"

subsection \<open>Deleting an object through the session\<close>

text \<open>
  The columns of a class's table that are foreign keys into table \<open>tn\<close>, each with the column it
  refers to, and whether a row refers to another through them.
\<close>

definition fk_columns :: "mapped_class \<Rightarrow> string \<Rightarrow> (string \<times> string) list" where
  "fk_columns m tn =
     concat (map (\<lambda>c. case foreign_key c of
                         Some (t, k) \<Rightarrow> if t = tn then [(cname c, k)] else []
                       | None \<Rightarrow> []) (columns m))"

definition refers_to :: "(string \<times> string) list \<Rightarrow> row \<Rightarrow> row \<Rightarrow> bool" where
  "refers_to fks child parent =
     list_ex (\<lambda>(c, k). getcol child c \<noteq> Null \<and> getcol child c = getcol parent k) fks"

text \<open>
  An object is a class name and a row. The collection a relationship of an object holds:
  the rows of the target class that refer to the object's row.
\<close>

type_synonym obj = "string \<times> row"

definition collection :: "mapped_class list \<Rightarrow> store \<Rightarrow> mapped_class \<Rightarrow> row \<Rightarrow> relationship \<Rightarrow> obj list" where
  "collection md db m r rel =
     (case find_class md (target rel) of
        None \<Rightarrow> []
      | Some t \<Rightarrow>
          map (Pair (class_name t))
            (filter (\<lambda>child. refers_to (fk_columns t (tablename m)) child r) (db (tablename t))))"

definition delete_cascade :: "relationship \<Rightarrow> bool" where
  "delete_cascade rel \<longleftrightarrow> ''all'' \<in> set (cascade rel) \<or> ''delete'' \<in> set (cascade rel)"

text \<open>
  The objects \<open>session.delete(obj)\<close> marks as deleted: the object, and through every
  relationship with the delete cascade the objects of its collection, and so on. The
  first argument bounds the nesting; cascades that do not run in a circle nest at most as
  deep as there are classes.
\<close>

fun delete_closure :: "nat \<Rightarrow> mapped_class list \<Rightarrow> store \<Rightarrow> obj \<Rightarrow> obj list" where
  "delete_closure 0 md db ob = [ob]"
| "delete_closure (Suc n) md db ob =
     ob # (case find_class md (fst ob) of
             None \<Rightarrow> []
           | Some m \<Rightarrow>
               concat (map (\<lambda>rel.
                  if delete_cascade rel
                  then concat (map (delete_closure n md db) (collection md db m (snd ob) rel))
                  else []) (relationships m)))"

text \<open>
  A relationship without the delete cascade: the rows that referred to a deleted object
  and stay get the foreign key blanked. These are the foreign key columns of a staying
  row of class \<open>t\<close> that the flush sets to NULL.
\<close>

definition orphaned :: "mapped_class list \<Rightarrow> obj list \<Rightarrow> mapped_class \<Rightarrow> row \<Rightarrow> string list" where
  "orphaned md dels t child =
     concat (map (\<lambda>(cn, r).
       case find_class md cn of
         None \<Rightarrow> []
       | Some m \<Rightarrow>
           concat (map (\<lambda>rel.
             if \<not> delete_cascade rel \<and> secondary rel = None \<and> target rel = class_name t
             then map fst (filter (\<lambda>(c, k). getcol child c \<noteq> Null \<and> getcol child c = getcol r k)
                             (fk_columns t (tablename m)))
             else []) (relationships m))) dels)"

definition blank :: "string list \<Rightarrow> row \<Rightarrow> row" where
  "blank cs r = map (\<lambda>(n, v). if n \<in> set cs then (n, Null) else (n, v)) r"

text \<open>A many-to-many relationship: the rows of the association table that refer to a deleted object go with it.\<close>

definition association_deleted :: "mapped_class list \<Rightarrow> obj list \<Rightarrow> mapped_class \<Rightarrow> row \<Rightarrow> bool" where
  "association_deleted md dels t r' =
     list_ex (\<lambda>(cn, r).
       case find_class md cn of
         None \<Rightarrow> False
       | Some m \<Rightarrow>
           list_ex (\<lambda>rel. secondary rel = Some (tablename t)
                          \<and> refers_to (fk_columns t (tablename m)) r' r) (relationships m)) dels"

definition stays :: "mapped_class list \<Rightarrow> obj list \<Rightarrow> mapped_class \<Rightarrow> row \<Rightarrow> bool" where
  "stays md dels t r \<longleftrightarrow> (class_name t, r) \<notin> set dels \<and> \<not> association_deleted md dels t r"

definition after_delete :: "mapped_class list \<Rightarrow> store \<Rightarrow> obj list \<Rightarrow> store" where
  "after_delete md db dels tn =
     (case find_table md tn of
        None \<Rightarrow> db tn
      | Some t \<Rightarrow> map (\<lambda>r. blank (orphaned md dels t r) r) (filter (stays md dels t) (db tn)))"

text \<open>Blanking a NOT NULL foreign key is refused by the engine.\<close>

definition blank_violation :: "mapped_class list \<Rightarrow> store \<Rightarrow> obj list \<Rightarrow> db_error option" where
  "blank_violation md db dels =
     first_violation (map (\<lambda>t.
        map_option (\<lambda>c. NotNullViolation (cname c))
          (find (\<lambda>c. \<not> nullable c
                     \<and> list_ex (\<lambda>r. cname c \<in> set (orphaned md dels t r))
                          (filter (stays md dels t) (db (tablename t))))
             (columns t))) md)"

text \<open>
  No foreign key of the schema has an ON DELETE rule, so the engine refuses the DELETE of
  a row that a staying row still refers to.
\<close>

definition dangling :: "mapped_class list \<Rightarrow> obj list \<Rightarrow> store \<Rightarrow> db_error option" where
  "dangling md dels db' =
     first_violation (map (\<lambda>t.
        map_option (\<lambda>c. ForeignKeyViolation (cname c))
          (find (\<lambda>c. case foreign_key c of
                        None \<Rightarrow> False
                      | Some (tn, k) \<Rightarrow>
                          list_ex (\<lambda>r. getcol r (cname c) \<noteq> Null
                                        \<and> list_ex (\<lambda>(cn, d). map_option tablename (find_class md cn) = Some tn
                                                             \<and> getcol d k = getcol r (cname c)) dels)
                            (db' (tablename t)))
             (columns t))) md)"

text \<open>
  \<open>session.delete(obj)\<close> and the flush: the store without the deleted objects, or the
  violation and the store as it was.
\<close>

definition session_delete :: "mapped_class list \<Rightarrow> store \<Rightarrow> obj \<Rightarrow> (db_error + unit) \<times> store" where
  "session_delete md db ob =
     (let dels = delete_closure (length md) md db ob;
          db' = after_delete md db dels
      in case first_violation [blank_violation md db dels, dangling md dels db'] of
           Some e \<Rightarrow> (Inl e, db)
         | None \<Rightarrow> (Inr (), db'))"

section \<open>Example data\<close>

text \<open>
  A small database, a Faker and a runtime on which the functions above can be run: one
  user with one address, one product priced 100.00.
\<close>

definition demo_user :: User where
  "demo_user = \<lparr> email = ''a@x.com'', phone = ''491700000000'', password_hash = ''00'',
     password_algo = ''sha256'', password_changed_at = 0, preferred_locale = ''en'',
     timezone = ''UTC'', default_currency = ''USD'', marketing_opt_in = False,
     terms_accepted_at = 0, User.status = active, failed_login_attempts = 0,
     lockout_until = None, User.created_at = 0, User.updated_at = 0, last_login_at = 0,
     gdpr_erasure_requested_at = None \<rparr>"

definition demo_address :: UserAddress where
  "demo_address = \<lparr> UserAddress.user_id = 1, line1 = ''Main St 1'', line2 = None,
     city = ''Riga'', state = ''LV'', postal_code = ''100000'', country = ''LV'',
     is_default_shipping = True, is_default_billing = True \<rparr>"

definition demo_category :: Category where
  "demo_category = \<lparr> parent_id = None, Category.name = ''Electronics'',
     Category.slug = ''electronics'', Category.description = None, Category.is_active = True \<rparr>"

definition demo_product :: Product where
  "demo_product = \<lparr> Product.name = ''P'', sku = ''SKU-001'', Product.description = ''d'',
     brand = ''b'', price = 10000, discount_price = None, stock = 5, Product.is_active = True,
     Product.slug = ''p'', meta_title = ''P'', meta_description = ''d'', Product.created_at = 0,
     Product.updated_at = 0, categories = [] \<rparr>"

definition demo_db :: database where
  "demo_db = \<lparr> users = [(1, demo_user)], user_address = [(7, demo_address)],
     products = [(4, demo_product)], database.categories = [(2, demo_category)], orders = [] \<rparr>"

definition demo_faker :: Faker where
  "demo_faker = \<lparr> provider = (\<lambda>c k. ''f'' @ str (int k)),
     Faker.unique = (\<lambda>c k. Some (''u'' @ str (int k))) \<rparr>"

definition demo_runtime :: runtime where
  "demo_runtime = \<lparr> now = 1000000000, today = ''20240101'',
     sha256_hexdigest = (\<lambda>s. ''h'' @ s), streets = [''Main St''], cities = [''Riga''],
     states = [''LV''], countries = [''LV''], ne_PENDING_value = (\<lambda>s. s \<noteq> PENDING),
     commit_raises = (\<lambda>c. False) \<rparr>"

text \<open>The order that one round of \<open>create_fake_orders\<close> builds on it when every raw draw is 101.\<close>

definition demo_order :: Order where
  "demo_order = \<lparr> Order.user_id = 1, shipping_address_id = Some 7,
     order_number = ''20240101-1-100101'', Order.status = CANCELED, total_amount = 40000,
     is_paid = True,
     items = [\<lparr> product_id = 4, quantity = 2, unit_price = 10000 \<rparr>,
              \<lparr> product_id = 4, quantity = 2, unit_price = 10000 \<rparr>] \<rparr>"

text \<open>A users table with a gap: ids 1 and 3, none with id 2.\<close>

definition gap_db :: database where
  "gap_db = \<lparr> users = [(1, demo_user), (3, demo_user)], user_address = [], products = [],
     database.categories = [], orders = [] \<rparr>"

text \<open>
  A larger run for the batches of \<open>create_fake_addresses\<close>: users 1 to 501, none with an
  address, and a stream of draws that picks the users in turn (every eleventh raw draw
  counts up from \<open>j\<close>, the ten draws between, which fill in the address, are 1).
\<close>

definition many_users :: "nat \<Rightarrow> (int \<times> User) list" where
  "many_users n = map (\<lambda>i. (int i, demo_user)) [1..<Suc n]"

definition crowd_db :: database where
  "crowd_db = \<lparr> users = many_users 501, user_address = [], products = [],
     database.categories = [], orders = [] \<rparr>"

definition robin :: "nat \<Rightarrow> nat \<Rightarrow> rng" where
  "robin j p = (\<lambda>n. if (n + p) mod 11 = 0 then j + (n + p) div 11 else 1)"

definition address_of :: "int \<Rightarrow> UserAddress" where
  "address_of i = \<lparr> UserAddress.user_id = i, line1 = ''Main St 2'', line2 = None,
     city = ''Riga'', state = ''LV'', postal_code = ''100001'', country = ''LV'',
     is_default_shipping = True, is_default_billing = True \<rparr>"

definition addresses_of :: "nat \<Rightarrow> UserAddress list" where
  "addresses_of j = map (\<lambda>i. address_of (int i)) [1..<Suc j]"

text \<open>The same runtime with the first commit raising, and with the second.\<close>

definition runtime_A :: runtime where
  "runtime_A = demo_runtime\<lparr> commit_raises := (\<lambda>c. c = 0) \<rparr>"

definition runtime_B :: runtime where
  "runtime_B = demo_runtime\<lparr> commit_raises := (\<lambda>c. c = 1) \<rparr>"

text \<open>
  A small store for the schema: two users, each with an address, an order, a payment on
  the other's order, a review, a cart row and a wishlist with one item; the order of
  user 2 ships to the address of user 1.
\<close>

definition shop :: store where
  "shop = (\<lambda>tn. [])
     (''users'' := [
        [(''id'', IntV 1), (''email'', StrV ''a@x.com''), (''password_hash'', StrV ''00'')],
        [(''id'', IntV 2), (''email'', StrV ''b@x.com''), (''password_hash'', StrV ''11'')]],
      ''user_address'' := [
        [(''id'', IntV 1), (''user_id'', IntV 1), (''line1'', StrV ''Main St 1''),
         (''city'', StrV ''Riga''), (''postal_code'', StrV ''100000''), (''country'', StrV ''LV'')],
        [(''id'', IntV 2), (''user_id'', IntV 2), (''line1'', StrV ''Main St 2''),
         (''city'', StrV ''Riga''), (''postal_code'', StrV ''100000''), (''country'', StrV ''LV'')]],
      ''products'' := [
        [(''id'', IntV 1), (''sku'', StrV ''SKU-001''), (''name'', StrV ''P''),
         (''price'', IntV 10000), (''slug'', StrV ''p'')]],
      ''orders'' := [
        [(''id'', IntV 1), (''user_id'', IntV 1), (''shipping_address_id'', IntV 1),
         (''order_number'', StrV ''20240101-1-100101''), (''total_amount'', IntV 20000)],
        [(''id'', IntV 2), (''user_id'', IntV 2), (''shipping_address_id'', IntV 1),
         (''order_number'', StrV ''20240101-2-100102''), (''total_amount'', IntV 10000)]],
      ''order_items'' := [
        [(''id'', IntV 1), (''order_id'', IntV 1), (''product_id'', IntV 1),
         (''quantity'', IntV 2), (''unit_price'', IntV 10000)],
        [(''id'', IntV 2), (''order_id'', IntV 2), (''product_id'', IntV 1),
         (''quantity'', IntV 1), (''unit_price'', IntV 10000)]],
      ''payments'' := [
        [(''id'', IntV 1), (''order_id'', IntV 1), (''user_id'', IntV 2),
         (''payment_method'', StrV ''paypal''), (''amount'', IntV 20000)],
        [(''id'', IntV 2), (''order_id'', IntV 2), (''user_id'', IntV 1),
         (''payment_method'', StrV ''paypal''), (''amount'', IntV 10000)]],
      ''reviews'' := [
        [(''id'', IntV 1), (''user_id'', IntV 1), (''product_id'', IntV 1), (''rating'', IntV 5)],
        [(''id'', IntV 2), (''user_id'', IntV 2), (''product_id'', IntV 1), (''rating'', IntV 4)]],
      ''shopping_cart'' := [
        [(''id'', IntV 1), (''user_id'', IntV 1), (''product_id'', IntV 1), (''quantity'', IntV 1)],
        [(''id'', IntV 2), (''user_id'', IntV 2), (''product_id'', IntV 1), (''quantity'', IntV 3)]],
      ''wishlists'' := [
        [(''id'', IntV 1), (''user_id'', IntV 1), (''name'', StrV ''mine'')],
        [(''id'', IntV 2), (''user_id'', IntV 2), (''name'', StrV ''theirs'')]],
      ''wishlist_items'' := [
        [(''id'', IntV 1), (''wishlist_id'', IntV 1), (''product_id'', IntV 1)],
        [(''id'', IntV 2), (''wishlist_id'', IntV 2), (''product_id'', IntV 1)]])"


definition product_row :: "string \<Rightarrow> string \<Rightarrow> row" where
  "product_row sku' slug' =
     [(''sku'', StrV sku'), (''name'', StrV ''Q''), (''price'', IntV 500), (''slug'', StrV slug')]"






section \<open>Invariants of the loops\<close>

text \<open>
  What holds of every item the inner loop appends: the query for its \<open>product_id\<close>
  returned exactly one product, and the item's \<open>unit_price\<close> is that product's price.
\<close>

definition item_priced :: "database \<Rightarrow> OrderItem \<Rightarrow> bool" where
  "item_priced db item \<longleftrightarrow>
     (\<exists>p. scalar_one (filter (\<lambda>p. fst p = product_id item) (products db)) = Inr p
          \<and> unit_price item = price (snd p))"

text \<open>What holds of every order the outer loop adds to the session.\<close>

definition order_ok :: "database \<Rightarrow> Order \<Rightarrow> bool" where
  "order_ok db order \<longleftrightarrow>
     total_amount order = sum_list (map (\<lambda>item. unit_price item * quantity item) (items order))
     \<and> list_all (item_priced db) (items order)
     \<and> check_user_exists db (Order.user_id order) = Inr True
     \<and> list_ex (\<lambda>a. shipping_address_id order = Some (fst a)
                    \<and> UserAddress.user_id (snd a) = Order.user_id order) (user_address db)
     \<and> items order \<noteq> []"



text \<open>No two rows of a table agree on all of the given columns.\<close>

definition unique_together :: "string list \<Rightarrow> row list \<Rightarrow> bool" where
  "unique_together cs rows \<longleftrightarrow> distinct (map (\<lambda>r. map (getcol r) cs) rows)"

section \<open>Properties of the seeding code\<close>

subsection \<open>Exceptions and random draws\<close>

lemma bind_Inr_iff: "bind m f = Inr y \<longleftrightarrow> (\<exists>x. m = Inr x \<and> f x = Inr y)"
  by (cases m) (simp_all add: bind_def)

lemma randint_Inr: "randint a b g = Inr (r, g') \<Longrightarrow> a \<le> r \<and> r \<le> b"
proof -
  assume h: "randint a b g = Inr (r, g')"
  then have ab: "a \<le> b" and r: "r = a + int (g 0) mod (b - a + 1)"
    by (auto simp: randint_def split: if_splits)
  from ab have "0 < b - a + 1" by simp
  then have "0 \<le> int (g 0) mod (b - a + 1)" "int (g 0) mod (b - a + 1) < b - a + 1"
    by (rule pos_mod_sign, rule pos_mod_bound)
  with r show ?thesis by linarith
qed

lemma scalar_one_Inr: "scalar_one rows = Inr x \<Longrightarrow> rows = [x]"
  by (auto simp: scalar_one_def split: list.splits)

text \<open>The loops at a numeral: one round, then the loop at the predecessor.\<close>

lemma probe_user_id_numeral:
  "probe_user_id (numeral k) db min_id max_id g =
     bind (randint min_id max_id g) (\<lambda>(random_id, g').
     bind (check_user_exists db random_id) (\<lambda>found.
       if found then Inr (Some random_id, g')
       else probe_user_id (pred_numeral k) db min_id max_id g'))"
  by (simp add: numeral_eq_Suc)

lemma order_items_loop_numeral:
  "order_items_loop (numeral k) db product_ids order_items g =
     bind (choice product_ids g) (\<lambda>(product_id', g).
     bind (scalar_one (filter (\<lambda>p. fst p = product_id') (products db))) (\<lambda>current_product.
     bind (randint 1 100 g) (\<lambda>(quantity', g).
       order_items_loop (pred_numeral k) db product_ids
         (order_items @ [\<lparr> product_id = product_id',
                            quantity = quantity',
                            unit_price = price (snd current_product) \<rparr>]) g)))"
  by (simp add: numeral_eq_Suc)

lemma choose_categories_loop_numeral:
  "choose_categories_loop (numeral k) categories' chosen_c g =
     bind (choice categories' g) (\<lambda>(c, g).
       choose_categories_loop (pred_numeral k) categories' (chosen_c @ [c]) g)"
  by (simp add: numeral_eq_Suc)

subsection \<open>get_random_existing_user_id\<close>

lemma probe_user_id_found:
  "probe_user_id n db min_id max_id g = Inr (Some uid, g') \<Longrightarrow>
   check_user_exists db uid = Inr True"
proof (induction n arbitrary: g)
  case 0
  then show ?case by simp
next
  case (Suc n)
  then show ?case
    by (auto simp: bind_Inr_iff split: if_splits)
qed

lemma get_random_existing_user_id_found:
  "get_random_existing_user_id db g = Inr (Some uid, g') \<Longrightarrow>
   check_user_exists db uid = Inr True"
  by (auto simp: get_random_existing_user_id_def split: option.splits prod.splits
      dest: probe_user_id_found)

lemma check_user_exists_True:
  assumes "check_user_exists db uid = Inr True"
  shows "uid \<in> fst ` set (users db)"
proof -
  from assms obtain u where "filter (\<lambda>u. fst u = uid) (users db) = [u]"
    by (auto simp: check_user_exists_def bind_Inr_iff scalar_one_or_none_def split: list.splits)
  then have "u \<in> set (filter (\<lambda>u. fst u = uid) (users db))" by simp
  then show ?thesis by force
qed

text \<open>When every draw lands on an id that no user has, the loop runs out and returns \<open>None\<close>.\<close>

lemma probe_user_id_miss:
  assumes "min_id \<le> max_id"
    and "\<And>k. check_user_exists db (min_id + int (g k) mod (max_id - min_id + 1)) = Inr False"
  shows "\<exists>g'. probe_user_id n db min_id max_id g = Inr (None, g')"
  using assms
proof (induction n arbitrary: g)
  case 0
  then show ?case by simp
next
  case (Suc n)
  have "\<exists>g'. probe_user_id n db min_id max_id (\<lambda>n. g (Suc n)) = Inr (None, g')"
    by (rule Suc.IH) (simp_all add: Suc.prems)
  with Suc.prems show ?case
    by (simp add: randint_def bind_def)
qed

lemma gap_db_miss: "\<exists>g'. get_random_existing_user_id gap_db (\<lambda>_. 7) = Inr (None, g')"
proof -
  have mm: "get_min_max_user_id gap_db = (Some 1, Some 3)"
    by (simp add: get_min_max_user_id_def gap_db_def)
  have "\<exists>g'. probe_user_id 10000 gap_db 1 3 (\<lambda>_. 7) = Inr (None, g')"
    by (rule probe_user_id_miss)
       (simp_all add: check_user_exists_def gap_db_def scalar_one_or_none_def bind_def)
  then show ?thesis by (simp add: get_random_existing_user_id_def mm)
qed

lemma get_random_existing_user_id_demo:
  "get_random_existing_user_id demo_db (\<lambda>_. 101) = Inr (Some 1, \<lambda>_. 101)"
  by (simp add: get_random_existing_user_id_def get_min_max_user_id_def demo_db_def
      probe_user_id_numeral randint_def bind_def check_user_exists_def scalar_one_or_none_def)

text \<open>
  C10. Whenever \<open>get_random_existing_user_id\<close> returns an integer, a user with that id
  exists (the existence check of the code answers \<open>True\<close>, and the id is the key of a row
  of the users table); on an empty users table it returns \<open>None\<close>; and there is a
  database with users on which it returns \<open>None\<close> all the same, after 10000 draws that
  all miss, so \<open>None\<close> does not mean that the table is empty.
\<close>

theorem get_random_existing_user_id_sound:
  "(\<forall>db g uid g'. get_random_existing_user_id db g = Inr (Some uid, g') \<longrightarrow>
      check_user_exists db uid = Inr True \<and> uid \<in> fst ` set (users db))
   \<and> (\<forall>db g. users db = [] \<longrightarrow> get_random_existing_user_id db g = Inr (None, g))
   \<and> (\<exists>db g g'. users db \<noteq> [] \<and> get_random_existing_user_id db g = Inr (None, g'))"
proof (intro conjI allI impI)
  fix db g uid g'
  assume "get_random_existing_user_id db g = Inr (Some uid, g')"
  then show "check_user_exists db uid = Inr True"
    by (rule get_random_existing_user_id_found)
  then show "uid \<in> fst ` set (users db)"
    by (rule check_user_exists_True)
next
  fix db :: database and g :: rng
  assume "users db = []"
  then show "get_random_existing_user_id db g = Inr (None, g)"
    by (simp add: get_random_existing_user_id_def get_min_max_user_id_def)
next
  from gap_db_miss obtain g' where "get_random_existing_user_id gap_db (\<lambda>_. 7) = Inr (None, g')" ..
  moreover have "users gap_db \<noteq> []" by (simp add: gap_db_def)
  ultimately show "\<exists>db g g'. users db \<noteq> [] \<and> get_random_existing_user_id db g = Inr (None, g')"
    by blast
qed

theorem get_random_existing_user_id_sound_witness:
  "get_random_existing_user_id demo_db (\<lambda>_. 101) = Inr (Some 1, \<lambda>_. 101)
   \<and> check_user_exists demo_db 1 = Inr True
   \<and> 1 \<in> fst ` set (users demo_db)
   \<and> users (demo_db\<lparr> users := [] \<rparr>) = []
   \<and> get_random_existing_user_id (demo_db\<lparr> users := [] \<rparr>) (\<lambda>_. 101) = Inr (None, \<lambda>_. 101)"
proof -
  have run: "get_random_existing_user_id demo_db (\<lambda>_. 101) = Inr (Some 1, \<lambda>_. 101)"
    by (rule get_random_existing_user_id_demo)
  have empty: "users (demo_db\<lparr> users := [] \<rparr>) = []"
    by simp
  from get_random_existing_user_id_sound
  have found: "\<And>db g uid g'. get_random_existing_user_id db g = Inr (Some uid, g') \<Longrightarrow>
      check_user_exists db uid = Inr True \<and> uid \<in> fst ` set (users db)"
    and none: "\<And>db g. users db = [] \<Longrightarrow> get_random_existing_user_id db g = Inr (None, g)"
    by blast+
  from found[OF run] none[OF empty, of "\<lambda>_. 101"] run empty show ?thesis
    by simp
qed

subsection \<open>create_fake_orders\<close>

lemma order_items_loop_inv:
  "order_items_loop n db product_ids acc g = Inr (order_items, g') \<Longrightarrow>
   list_all (item_priced db) acc \<Longrightarrow>
   list_all (item_priced db) order_items \<and> length order_items = length acc + n"
proof (induction n arbitrary: acc g)
  case 0
  then show ?case by simp
next
  case (Suc n)
  from Suc.prems(1) obtain pid g1 cp q g2 where
    cp: "scalar_one (filter (\<lambda>p. fst p = pid) (products db)) = Inr cp"
    and rest: "order_items_loop n db product_ids
         (acc @ [\<lparr> product_id = pid, quantity = q, unit_price = price (snd cp) \<rparr>]) g2
         = Inr (order_items, g')"
    by (auto simp: bind_Inr_iff)
  have "item_priced db \<lparr> product_id = pid, quantity = q, unit_price = price (snd cp) \<rparr>"
    using cp by (simp add: item_priced_def)
  with Suc.prems(2)
  have "list_all (item_priced db)
          (acc @ [\<lparr> product_id = pid, quantity = q, unit_price = price (snd cp) \<rparr>])"
    by simp
  from Suc.IH[OF rest this] show ?case by simp
qed

lemma orders_loop_inv:
  "orders_loop n rt db m session g = Inr (session', g') \<Longrightarrow>
   list_all (order_ok db) session \<Longrightarrow>
   list_all (order_ok db) session' \<and> length session' \<le> length session + n"
proof (induction n arbitrary: session g)
  case 0
  then show ?case by simp
next
  case (Suc n)
  from Suc.prems(1) obtain ruid g1 where
    u: "get_random_existing_user_id db g = Inr (ruid, g1)"
    and body: "(case ruid of
         None \<Rightarrow> orders_loop n rt db m session g1
       | Some random_user_id \<Rightarrow>
           bind (scalar_one (filter (\<lambda>u. fst u = random_user_id) (users db))) (\<lambda>current_user.
             let addresses =
                   filter (\<lambda>a. UserAddress.user_id (snd a) = fst current_user) (user_address db)
             in if addresses = [] then orders_loop n rt db m session g1
                else
                  bind (choice [PENDING, PAID, SHIPPING, DELIVERED, COMPLETED, CANCELED] g1)
                    (\<lambda>(order_status_gen, g).
                  bind (randint 100000 999999 g) (\<lambda>(r, g).
                    let order_number' = today rt @ ''-'' @ str (fst current_user) @ ''-'' @ str r;
                        product_ids = map fst (products db)
                    in if product_ids = [] then orders_loop n rt db m session g
                       else
                         bind (randint 1 m g) (\<lambda>(n_items, g).
                         bind (order_items_loop (nat n_items) db product_ids [] g)
                           (\<lambda>(order_items, g).
                           let order =
                                 \<lparr> Order.user_id = random_user_id,
                                   shipping_address_id = Some (fst (hd addresses)),
                                   order_number = order_number',
                                   Order.status = order_status_gen,
                                   total_amount =
                                     sum_list (map (\<lambda>item. unit_price item * quantity item) order_items),
                                   is_paid = ne_PENDING_value rt order_status_gen,
                                   items = order_items \<rparr>
                           in orders_loop n rt db m (session @ [order]) g)))))) = Inr (session', g')"
    by (auto simp: bind_Inr_iff)
  show ?case
  proof (cases ruid)
    case None
    with body Suc.IH[OF _ Suc.prems(2)] show ?thesis by fastforce
  next
    case (Some uid)
    from u Some have ex: "check_user_exists db uid = Inr True"
      by (auto dest: get_random_existing_user_id_found)
    from body Some obtain cu where
      cu: "scalar_one (filter (\<lambda>u. fst u = uid) (users db)) = Inr cu"
      by (auto simp: bind_Inr_iff)
    then have "filter (\<lambda>u. fst u = uid) (users db) = [cu]" by (rule scalar_one_Inr)
    then have "cu \<in> set (filter (\<lambda>u. fst u = uid) (users db))" by simp
    then have cuid: "fst cu = uid" by simp
    define addresses where
      "addresses = filter (\<lambda>a. UserAddress.user_id (snd a) = uid) (user_address db)"
    show ?thesis
    proof (cases "addresses = []")
      case True
      with body Some cu cuid Suc.IH[OF _ Suc.prems(2)] show ?thesis
        by (fastforce simp: bind_Inr_iff addresses_def)
    next
      case False
      then have "hd addresses \<in> set addresses" by simp
      then have hd1: "hd addresses \<in> set (user_address db)"
        and hd2: "UserAddress.user_id (snd (hd addresses)) = uid"
        by (simp_all add: addresses_def)
      show ?thesis
      proof (cases "products db = []")
        case True
        with body Some cu cuid False Suc.IH[OF _ Suc.prems(2)] show ?thesis
          by (fastforce simp: bind_Inr_iff addresses_def)
      next
        case nonempty: False
        from body Some cu cuid False nonempty obtain st g2 r g3 k g4 its g5 where
          k: "randint 1 m g3 = Inr (k, g4)"
          and its: "order_items_loop (nat k) db (map fst (products db)) [] g4 = Inr (its, g5)"
          and rest: "orders_loop n rt db m
                       (session @ [\<lparr> Order.user_id = uid,
                                     shipping_address_id = Some (fst (hd addresses)),
                                     order_number = today rt @ ''-'' @ str uid @ ''-'' @ str r,
                                     Order.status = st,
                                     total_amount =
                                       sum_list (map (\<lambda>item. unit_price item * quantity item) its),
                                     is_paid = ne_PENDING_value rt st,
                                     items = its \<rparr>]) g5 = Inr (session', g')"
          by (auto simp: bind_Inr_iff addresses_def Let_def)
        from randint_Inr[OF k] have "1 \<le> k" by simp
        from order_items_loop_inv[OF its]
        have ip: "list_all (item_priced db) its" and "length its = nat k"
          by simp_all
        with \<open>1 \<le> k\<close> have "its \<noteq> []" by auto
        have "order_ok db \<lparr> Order.user_id = uid,
                            shipping_address_id = Some (fst (hd addresses)),
                            order_number = today rt @ ''-'' @ str uid @ ''-'' @ str r,
                            Order.status = st,
                            total_amount =
                              sum_list (map (\<lambda>item. unit_price item * quantity item) its),
                            is_paid = ne_PENDING_value rt st,
                            items = its \<rparr>"
          using ex ip \<open>its \<noteq> []\<close> hd1 hd2 by (auto simp: order_ok_def list_ex_iff)
        with Suc.prems(2) Suc.IH[OF rest] show ?thesis by simp
      qed
    qed
  qed
qed

lemma set_zip_snd: "x \<in> set (zip as bs) \<Longrightarrow> snd x \<in> set bs"
  by (cases x) (auto dest: set_zip_rightD)

text \<open>A call that returns added to the orders table exactly the orders of its session.\<close>

lemma create_fake_orders_created:
  assumes "create_fake_orders self rt db how_many max_items_in_order g = (Inr (), db')"
  shows "\<exists>session g'.
           orders_loop (nat (min how_many (limitation self))) rt db
             (min max_items_in_order (limitation self)) [] g = Inr (session, g')
           \<and> map snd (created_orders db db') = session"
  using assms
  by (auto simp: create_fake_orders_def Let_def created_orders_def add_orders_def insert_all_def
      split: sum.splits prod.splits if_splits)

lemma created_order_ok:
  assumes "create_fake_orders self rt db how_many max_items_in_order g = (Inr (), db')"
    and "row \<in> set (created_orders db db')"
  shows "order_ok db (snd row)"
proof -
  from create_fake_orders_created[OF assms(1)] obtain session g' where
    loop: "orders_loop (nat (min how_many (limitation self))) rt db
             (min max_items_in_order (limitation self)) [] g = Inr (session, g')"
    and session: "map snd (created_orders db db') = session"
    by blast
  from orders_loop_inv[OF loop] have "list_all (order_ok db) session" by simp
  moreover from assms(2) session have "snd row \<in> set session" by force
  ultimately show ?thesis by (simp add: list_all_iff)
qed

lemma create_fake_orders_demo:
  "create_fake_orders (FakeData_init demo_faker) demo_runtime demo_db 1 2 (\<lambda>_. 101) =
   (Inr (), demo_db\<lparr> orders := [(1, demo_order)] \<rparr>)"
  apply (simp add: create_fake_orders_def FakeData_init_def get_random_existing_user_id_demo
      bind_def)
  apply (simp add: demo_db_def demo_runtime_def scalar_one_def randint_def choice_def bind_def
      add_orders_def insert_all_def next_id_def str_def digits.simps order_items_loop_numeral
      demo_address_def demo_product_def demo_order_def)
  done

lemma created_orders_demo:
  "created_orders demo_db (demo_db\<lparr> orders := [(1, demo_order)] \<rparr>) = [(1, demo_order)]"
  by (simp add: created_orders_def demo_db_def)

text \<open>
  C1. For every order that \<open>create_fake_orders\<close> created, the stored \<open>total_amount\<close> is
  the sum over the order's items of quantity times \<open>unit_price\<close>, and the \<open>unit_price\<close>
  of each item is the price of the product the item refers to, as the database held it
  during the call: the query for the item's \<open>product_id\<close> returned that one product.
\<close>

theorem create_fake_orders_total_amount:
  assumes "create_fake_orders self rt db how_many max_items_in_order g = (Inr (), db')"
    and "row \<in> set (created_orders db db')"
  shows "total_amount (snd row)
           = sum_list (map (\<lambda>item. quantity item * unit_price item) (items (snd row)))
         \<and> (\<forall>item \<in> set (items (snd row)).
               \<exists>p. scalar_one (filter (\<lambda>p. fst p = product_id item) (products db)) = Inr p
                   \<and> unit_price item = price (snd p))"
proof -
  from created_order_ok[OF assms] have ok: "order_ok db (snd row)" .
  have "sum_list (map (\<lambda>item. unit_price item * quantity item) (items (snd row)))
          = sum_list (map (\<lambda>item. quantity item * unit_price item) (items (snd row)))"
    by (simp add: mult.commute)
  moreover from ok
  have "total_amount (snd row)
          = sum_list (map (\<lambda>item. unit_price item * quantity item) (items (snd row)))"
    by (simp add: order_ok_def)
  moreover from ok
  have "\<forall>item \<in> set (items (snd row)).
          \<exists>p. scalar_one (filter (\<lambda>p. fst p = product_id item) (products db)) = Inr p
              \<and> unit_price item = price (snd p)"
    by (simp add: order_ok_def list_all_iff item_priced_def)
  ultimately show ?thesis by simp
qed

theorem create_fake_orders_total_amount_witness:
  "create_fake_orders (FakeData_init demo_faker) demo_runtime demo_db 1 2 (\<lambda>_. 101)
     = (Inr (), demo_db\<lparr> orders := [(1, demo_order)] \<rparr>)
   \<and> (1, demo_order) \<in> set (created_orders demo_db (demo_db\<lparr> orders := [(1, demo_order)] \<rparr>))
   \<and> total_amount demo_order = 2 * 10000 + 2 * 10000
   \<and> sum_list (map (\<lambda>item. quantity item * unit_price item) (items demo_order)) = 40000
   \<and> list_all (\<lambda>item. \<exists>p. scalar_one (filter (\<lambda>p. fst p = product_id item) (products demo_db)) = Inr p
                        \<and> unit_price item = price (snd p)) (items demo_order)"
proof -
  have run: "create_fake_orders (FakeData_init demo_faker) demo_runtime demo_db 1 2 (\<lambda>_. 101)
     = (Inr (), demo_db\<lparr> orders := [(1, demo_order)] \<rparr>)"
    by (rule create_fake_orders_demo)
  have mem: "(1, demo_order) \<in> set (created_orders demo_db (demo_db\<lparr> orders := [(1, demo_order)] \<rparr>))"
    by (simp add: created_orders_demo)
  from create_fake_orders_total_amount[OF run mem]
  have "total_amount demo_order
          = sum_list (map (\<lambda>item. quantity item * unit_price item) (items demo_order))"
    and "\<forall>item \<in> set (items demo_order).
            \<exists>p. scalar_one (filter (\<lambda>p. fst p = product_id item) (products demo_db)) = Inr p
                \<and> unit_price item = price (snd p)"
    by simp_all
  moreover have "total_amount demo_order = 2 * 10000 + 2 * 10000"
    by (simp add: demo_order_def)
  ultimately show ?thesis using run mem
    by (simp add: list_all_iff)
qed

text \<open>
  C5. Every order that \<open>create_fake_orders\<close> created refers to an existing user (the
  existence check of the code answers \<open>True\<close> for its \<open>user_id\<close>), its shipping address
  is the id of an address row whose \<open>user_id\<close> is that same user, and its list of items
  is not empty. No bound on \<open>max_items_in_order\<close> is assumed: when it is below 1,
  \<open>random.randint(1, max_items_in_order)\<close> raises before any order is built, so the
  statement covers the case \<open>max_items_in_order >= 1\<close> of the claim and more.
\<close>

theorem create_fake_orders_references:
  assumes "create_fake_orders self rt db how_many max_items_in_order g = (Inr (), db')"
    and "row \<in> set (created_orders db db')"
  shows "check_user_exists db (Order.user_id (snd row)) = Inr True
         \<and> (\<exists>a \<in> set (user_address db).
               shipping_address_id (snd row) = Some (fst a)
               \<and> UserAddress.user_id (snd a) = Order.user_id (snd row))
         \<and> items (snd row) \<noteq> []"
  using created_order_ok[OF assms]
  by (simp add: order_ok_def list_ex_iff)

theorem create_fake_orders_references_witness:
  "create_fake_orders (FakeData_init demo_faker) demo_runtime demo_db 1 2 (\<lambda>_. 101)
     = (Inr (), demo_db\<lparr> orders := [(1, demo_order)] \<rparr>)
   \<and> (1, demo_order) \<in> set (created_orders demo_db (demo_db\<lparr> orders := [(1, demo_order)] \<rparr>))
   \<and> Order.user_id demo_order = 1
   \<and> check_user_exists demo_db 1 = Inr True
   \<and> shipping_address_id demo_order = Some 7
   \<and> (7, demo_address) \<in> set (user_address demo_db)
   \<and> UserAddress.user_id demo_address = 1
   \<and> items demo_order \<noteq> []"
proof -
  have run: "create_fake_orders (FakeData_init demo_faker) demo_runtime demo_db 1 2 (\<lambda>_. 101)
     = (Inr (), demo_db\<lparr> orders := [(1, demo_order)] \<rparr>)"
    by (rule create_fake_orders_demo)
  have mem: "(1, demo_order) \<in> set (created_orders demo_db (demo_db\<lparr> orders := [(1, demo_order)] \<rparr>))"
    by (simp add: created_orders_demo)
  have facts: "Order.user_id demo_order = 1" "shipping_address_id demo_order = Some 7"
    "(7, demo_address) \<in> set (user_address demo_db)" "UserAddress.user_id demo_address = 1"
    by (simp_all add: demo_order_def demo_db_def demo_address_def)
  from create_fake_orders_references[OF run mem]
  have "check_user_exists demo_db 1 = Inr True" and "items demo_order \<noteq> []"
    by (simp_all add: facts)
  with run mem facts show ?thesis by simp
qed

subsection \<open>The limit on the objects created per call\<close>



lemma length_add_addresses:
  "length (user_address (add_addresses db batch)) = length (user_address db) + length batch"
  by (simp add: add_addresses_def insert_all_def)









subsection \<open>create_fake_addresses: batches and failing commits\<close>

text \<open>The stream \<open>robin\<close> and the users table of \<open>crowd_db\<close>.\<close>

lemma robin_0: "robin j p 0 = (if p mod 11 = 0 then j + p div 11 else 1)"
  by (simp add: robin_def)

lemma robin_tail: "(\<lambda>n. robin j p (Suc n)) = robin j (p + 1)"
  by (simp add: robin_def fun_eq_iff)

lemma robin_11: "robin j 11 = robin (Suc j) 0"
proof
  fix n
  have "(n + 11) mod 11 = n mod 11" "(n + 11) div 11 = Suc (n div 11)"
    by presburger+
  then show "robin j 11 n = robin (Suc j) 0 n"
    by (simp add: robin_def)
qed

lemma filter_many_users:
  "filter (\<lambda>u. fst u = int i) (many_users n) = (if 1 \<le> i \<and> i \<le> n then [(int i, demo_user)] else [])"
  unfolding many_users_def
  by (induction n) (auto simp: filter_empty_conv)

lemma ids_many_users: "set (map fst (many_users n)) = int ` {1..n}"
  by (auto simp: many_users_def image_iff Bex_def) 

lemma min_max_many_users:
  assumes "users db = many_users n" "1 \<le> n"
  shows "get_min_max_user_id db = (Some 1, Some (int n))"
proof -
  have ne: "map fst (users db) \<noteq> []" using assms by (simp add: many_users_def)
  have "Min (int ` {1..n}) = 1"
    using assms(2) by (intro Min_eqI) auto
  moreover have "Max (int ` {1..n}) = int n"
    using assms(2) by (intro Max_eqI) auto
  ultimately show ?thesis
    using ne assms(1) by (simp add: get_min_max_user_id_def Let_def ids_many_users del: set_map)
qed

lemma check_user_exists_many:
  assumes "users db = many_users n" "1 \<le> i" "i \<le> n"
  shows "check_user_exists db (int i) = Inr True"
  using assms by (simp add: check_user_exists_def filter_many_users scalar_one_or_none_def bind_def)

lemma pick_user:
  assumes "users db = many_users 501" "j < 501"
  shows "get_random_existing_user_id db (robin j 0) = Inr (Some (int (Suc j)), robin j 1)"
proof -
  have mm: "get_min_max_user_id db = (Some 1, Some 501)"
    using min_max_many_users[OF assms(1)] by simp
  have r: "randint 1 501 (robin j 0) = Inr (int (Suc j), robin j 1)"
    using assms(2) by (simp add: randint_def robin_0 robin_tail del: One_nat_def)
  have c: "check_user_exists db (int (Suc j)) = Inr True"
    using assms by (intro check_user_exists_many[OF assms(1)]) simp_all
  show ?thesis
    unfolding get_random_existing_user_id_def mm
    by (simp only: prod.case option.case probe_user_id_numeral r c bind_def sum.case if_True)
qed

lemma robin_Suc: "robin j p (Suc n) = robin j (p + 1) n"
  by (simp add: robin_def)

lemma fill_address:
  "new_user_address (demo_runtime\<lparr> commit_raises := f \<rparr>) uid (robin j 1)
     = Inr (address_of uid, robin (Suc j) 0)"
proof -
  have lists: "streets (demo_runtime\<lparr> commit_raises := f \<rparr>) = [''Main St'']"
    "cities (demo_runtime\<lparr> commit_raises := f \<rparr>) = [''Riga'']"
    "states (demo_runtime\<lparr> commit_raises := f \<rparr>) = [''LV'']"
    "countries (demo_runtime\<lparr> commit_raises := f \<rparr>) = [''LV'']"
    by (simp_all add: demo_runtime_def)
  have str2: "str 2 = ''2''" and str_postal: "str 100001 = ''100001''"
    by (simp_all add: str_def digits.simps)
  show ?thesis
    unfolding new_user_address_def lists
    by (simp add: randint_def choice_def bind_def robin_0 robin_Suc robin_11 address_of_def
        str2 str_postal del: One_nat_def)
qed

lemma addresses_of_Suc: "addresses_of (Suc j) = addresses_of j @ [address_of (int (Suc j))]"
  by (simp add: addresses_of_def)

lemma length_addresses_of: "length (addresses_of j) = j"
  by (simp add: addresses_of_def)

lemma user_id_addresses_of: "a \<in> set (addresses_of j) \<Longrightarrow> UserAddress.user_id a \<le> int j"
  by (auto simp: addresses_of_def address_of_def)

lemma not_in_batch: "\<not> list_ex (\<lambda>a. UserAddress.user_id a = int (Suc j)) (addresses_of j)"
  by (auto simp: list_ex_iff dest: user_id_addresses_of)

lemma not_in_table:
  "\<not> list_ex (\<lambda>row. UserAddress.user_id (snd row) = int (Suc j)) (insert_all [] (addresses_of j))"
  by (auto simp: list_ex_iff insert_all_def dest!: set_zip_rightD user_id_addresses_of)

lemma one_round:
  assumes "users db = many_users 501" and "j < 501"
    and "\<not> list_ex (\<lambda>row. UserAddress.user_id (snd row) = int (Suc j)) (user_address db)"
    and "\<not> list_ex (\<lambda>a. UserAddress.user_id a = int (Suc j)) batch"
  shows "addresses_loop (Suc n) self (demo_runtime\<lparr> commit_raises := f \<rparr>) db c batch (robin j 0)
    = (if batch_size self \<le> int (length (batch @ [address_of (int (Suc j))]))
       then (if f c then (Inl DBAPIError, db)
             else addresses_loop n self (demo_runtime\<lparr> commit_raises := f \<rparr>)
                    (add_addresses db (batch @ [address_of (int (Suc j))])) (Suc c) [] (robin (Suc j) 0))
       else addresses_loop n self (demo_runtime\<lparr> commit_raises := f \<rparr>) db c
              (batch @ [address_of (int (Suc j))]) (robin (Suc j) 0))"
  unfolding addresses_loop.simps
  apply (simp only: pick_user[OF assms(1,2)] sum.case prod.case option.case Let_def assms(3,4)
      if_False fill_address simp_thms)
  apply simp
  done

lemma fill_batch:
  assumes "users db = many_users 501" and "user_address db = []"
  shows "j + n < 500 \<Longrightarrow>
    addresses_loop (n + m) (FakeData_init fk) (demo_runtime\<lparr> commit_raises := f \<rparr>) db 0
        (addresses_of j) (robin j 0)
    = addresses_loop m (FakeData_init fk) (demo_runtime\<lparr> commit_raises := f \<rparr>) db 0
        (addresses_of (j + n)) (robin (j + n) 0)"
proof (induction n arbitrary: j)
  case 0
  then show ?case by simp
next
  case (Suc n)
  have j: "j < 501" using Suc.prems by simp
  have db: "\<not> list_ex (\<lambda>row. UserAddress.user_id (snd row) = int (Suc j)) (user_address db)"
    by (simp add: assms(2))
  have "addresses_loop (Suc n + m) (FakeData_init fk) (demo_runtime\<lparr> commit_raises := f \<rparr>) db 0
        (addresses_of j) (robin j 0)
      = addresses_loop (Suc (n + m)) (FakeData_init fk) (demo_runtime\<lparr> commit_raises := f \<rparr>) db 0
        (addresses_of j) (robin j 0)"
    by simp
  also have "\<dots> = addresses_loop (n + m) (FakeData_init fk) (demo_runtime\<lparr> commit_raises := f \<rparr>) db 0
        (addresses_of (Suc j)) (robin (Suc j) 0)"
    unfolding one_round[OF assms(1) j db not_in_batch]
    using Suc.prems by (simp add: FakeData_init_def addresses_of_Suc length_addresses_of)
  also have "\<dots> = addresses_loop m (FakeData_init fk) (demo_runtime\<lparr> commit_raises := f \<rparr>) db 0
        (addresses_of (Suc j + n)) (robin (Suc j + n) 0)"
    using Suc.prems by (intro Suc.IH) simp
  finally show ?case by simp
qed

lemma crowd_499:
  "addresses_loop 501 (FakeData_init fk) (demo_runtime\<lparr> commit_raises := f \<rparr>) crowd_db 0 [] (robin 0 0)
   = addresses_loop 2 (FakeData_init fk) (demo_runtime\<lparr> commit_raises := f \<rparr>) crowd_db 0
       (addresses_of 499) (robin 499 0)"
proof -
  have "addresses_loop (499 + 2) (FakeData_init fk) (demo_runtime\<lparr> commit_raises := f \<rparr>) crowd_db 0
          (addresses_of 0) (robin 0 0)
   = addresses_loop 2 (FakeData_init fk) (demo_runtime\<lparr> commit_raises := f \<rparr>) crowd_db 0
       (addresses_of (0 + 499)) (robin (0 + 499) 0)"
    by (rule fill_batch) (simp_all add: crowd_db_def)
  then show ?thesis by (simp add: addresses_of_def)
qed

lemma crowd_round_500:
  "addresses_loop 2 (FakeData_init fk) (demo_runtime\<lparr> commit_raises := f \<rparr>) crowd_db 0
       (addresses_of 499) (robin 499 0)
   = (if f 0 then (Inl DBAPIError, crowd_db)
      else addresses_loop (Suc 0) (FakeData_init fk) (demo_runtime\<lparr> commit_raises := f \<rparr>)
             (add_addresses crowd_db (addresses_of 500)) (Suc 0) [] (robin 500 0))"
proof -
  have two: "(2::nat) = Suc (Suc 0)"
    by simp
  have batch: "addresses_of 499 @ [address_of 500] = addresses_of 500"
    using addresses_of_Suc[of 499] by simp
  have full: "batch_size (FakeData_init fk) \<le> int (length (addresses_of 500))"
    by (simp add: FakeData_init_def length_addresses_of)
  have users: "users crowd_db = many_users 501"
    and none: "\<not> list_ex (\<lambda>row. UserAddress.user_id (snd row) = int (Suc 499)) (user_address crowd_db)"
    by (simp_all add: crowd_db_def)
  have lt: "(499::nat) < 501"
    by simp
  show ?thesis
    unfolding two one_round[OF users lt none not_in_batch]
    using full by (simp add: batch del: addresses_loop.simps One_nat_def)
qed

lemma crowd_round_501:
  "addresses_loop (Suc 0) (FakeData_init fk) (demo_runtime\<lparr> commit_raises := f \<rparr>)
      (add_addresses crowd_db (addresses_of 500)) (Suc 0) [] (robin 500 0)
   = (Inr ([address_of 501], Suc 0, robin 501 0), add_addresses crowd_db (addresses_of 500))"
proof -
  have empty: "\<not> list_ex (\<lambda>a. UserAddress.user_id a = int (Suc 500)) []"
    by simp
  have users: "users (add_addresses crowd_db (addresses_of 500)) = many_users 501"
    and none: "\<not> list_ex (\<lambda>row. UserAddress.user_id (snd row) = int (Suc 500))
                  (user_address (add_addresses crowd_db (addresses_of 500)))"
    using not_in_table[of 500] by (simp_all add: crowd_db_def add_addresses_def)
  have lt: "(500::nat) < 501"
    by simp
  show ?thesis
    unfolding one_round[OF users lt none empty]
    by (simp add: FakeData_init_def del: One_nat_def)
qed

lemma limitation_init: "nat (min 501 (limitation (FakeData_init fk))) = 501"
  by (simp add: FakeData_init_def)

lemma crowd_run_A:
  "create_fake_addresses (FakeData_init fk) runtime_A crowd_db 501 (robin 0 0)
     = (Inl DBAPIError, crowd_db)"
  unfolding create_fake_addresses_def runtime_A_def Let_def limitation_init crowd_499
    crowd_round_500
  by simp

lemma crowd_run_B:
  "create_fake_addresses (FakeData_init fk) runtime_B crowd_db 501 (robin 0 0)
     = (Inl DBAPIError, add_addresses crowd_db (addresses_of 500))"
  unfolding create_fake_addresses_def runtime_B_def Let_def limitation_init crowd_499
    crowd_round_500
  by (simp add: crowd_round_501 del: addresses_loop.simps)

text \<open>
  The two runs on \<open>crowd_db\<close>: 501 rounds, one address per user. The batch is full at
  the 500th address. When the first commit raises, the table is left empty; when the first
  goes through and the second (the one after the loop) raises, the table holds 500 rows.
\<close>

lemma rows_crowd_run_B:
  "length (user_address (add_addresses crowd_db (addresses_of 500))) = 500"
  by (simp add: length_add_addresses length_addresses_of crowd_db_def)

text \<open>One round on the small database, for any way the commits behave.\<close>

lemma create_fake_addresses_small:
  "create_fake_addresses (FakeData_init demo_faker) (demo_runtime\<lparr> commit_raises := f \<rparr>)
     (demo_db\<lparr> user_address := [] \<rparr>) 1 (\<lambda>_. 101) =
   (if f 0 then (Inl DBAPIError, demo_db\<lparr> user_address := [] \<rparr>)
    else (Inr (), demo_db\<lparr> user_address :=
      [(1, \<lparr> UserAddress.user_id = 1, line1 = ''Main St 102'', line2 = None, city = ''Riga'',
             state = ''LV'', postal_code = ''100101'', country = ''LV'',
             is_default_shipping = True, is_default_billing = True \<rparr>)] \<rparr>))"
proof -
  have user: "get_random_existing_user_id (demo_db\<lparr> user_address := [] \<rparr>) (\<lambda>_. 101)
                = Inr (Some 1, \<lambda>_. 101)"
    by (simp add: get_random_existing_user_id_def get_min_max_user_id_def demo_db_def
        probe_user_id_numeral randint_def bind_def check_user_exists_def scalar_one_or_none_def)
  have new: "new_user_address (demo_runtime\<lparr> commit_raises := f \<rparr>) 1 (\<lambda>_. 101) =
     Inr (\<lparr> UserAddress.user_id = 1, line1 = ''Main St 102'', line2 = None, city = ''Riga'',
             state = ''LV'', postal_code = ''100101'', country = ''LV'',
             is_default_shipping = True, is_default_billing = True \<rparr>, \<lambda>_. 101)"
    by (simp add: new_user_address_def demo_runtime_def bind_def randint_def choice_def str_def
        digits.simps)
  show ?thesis
    apply (simp add: create_fake_addresses_def FakeData_init_def user new)
    apply (simp add: add_addresses_def insert_all_def next_id_def demo_db_def)
    done
qed

lemma addresses_loop_abort:
  assumes k: "commit_raises rt k" and bs: "1 \<le> batch_size self"
  shows "addresses_loop n self rt db c batch g = (r, db') \<Longrightarrow> c \<le> k \<Longrightarrow>
         int (length batch) < batch_size self \<Longrightarrow>
     (\<forall>e. r = Inl e \<longrightarrow>
        length (user_address db') + nat (batch_size self) * c
          \<le> length (user_address db) + nat (batch_size self) * k)
     \<and> (\<forall>batch' c' g'. r = Inr (batch', c', g') \<longrightarrow>
        c' \<le> k \<and> int (length batch') < batch_size self
        \<and> length (user_address db') + nat (batch_size self) * c
          \<le> length (user_address db) + nat (batch_size self) * c')"
proof (induction n arbitrary: db c batch g)
  case 0
  then show ?case by auto
next
  case (Suc n)
  have le: "nat (batch_size self) * c \<le> nat (batch_size self) * k"
    using Suc.prems(2) by simp
  show ?case
  proof (cases "get_random_existing_user_id db g")
    case (Inl e)
    with Suc.prems le show ?thesis by auto
  next
    case (Inr res)
    obtain ruid g1 where res: "res = (ruid, g1)" by (cases res)
    show ?thesis
    proof (cases ruid)
      case None
      with Suc.prems Inr res have "addresses_loop n self rt db c batch g1 = (r, db')"
        by simp
      from Suc.IH[OF this Suc.prems(2,3)] show ?thesis .
    next
      case (Some uid)
      show ?thesis
      proof (cases "list_ex (\<lambda>row. UserAddress.user_id (snd row) = uid) (user_address db)
                    \<or> list_ex (\<lambda>address. UserAddress.user_id address = uid) batch")
        case True
        with Suc.prems Inr res Some have "addresses_loop n self rt db c batch g1 = (r, db')"
          by (simp add: Let_def)
        from Suc.IH[OF this Suc.prems(2,3)] show ?thesis .
      next
        case False
        show ?thesis
        proof (cases "new_user_address rt uid g1")
          case (Inl e)
          with Suc.prems Inr res Some False le show ?thesis
            by (auto simp: Let_def)
        next
          case new: (Inr res2)
          obtain a g2 where res2: "res2 = (a, g2)" by (cases res2)
          show ?thesis
          proof (cases "batch_size self \<le> int (length (batch @ [a]))")
            case full: True
            with Suc.prems(3) have len: "length (batch @ [a]) = nat (batch_size self)"
              by simp
            show ?thesis
            proof (cases "commit_raises rt c")
              case True
              with Suc.prems Inr res Some False new res2 full le show ?thesis
                by (auto simp: Let_def)
            next
              case ok: False
              with k Suc.prems(2) have c: "Suc c \<le> k"
                by (cases "c = k") auto
              from ok Suc.prems Inr res Some False new res2 full
              have loop: "addresses_loop n self rt (add_addresses db (batch @ [a])) (Suc c) [] g2
                            = (r, db')"
                by (simp add: Let_def)
              have "int (length ([]::UserAddress list)) < batch_size self"
                using bs by simp
              from Suc.IH[OF loop c this] show ?thesis
                by (simp add: length_add_addresses len del: length_append)
            qed
          next
            case notfull: False
            with Suc.prems Inr res Some False new res2
            have loop: "addresses_loop n self rt db c (batch @ [a]) g2 = (r, db')"
              by (simp add: Let_def)
            from notfull have "int (length (batch @ [a])) < batch_size self" by simp
            from Suc.IH[OF loop Suc.prems(2) this] show ?thesis .
          qed
        qed
      qed
    qed
  qed
qed


text \<open>
  C8, as the code has it. \<open>create_fake_addresses\<close> catches nothing and counts nothing.
  When the commit number \<open>k\<close> of a call raises (counting from 0), the call leaves in the
  table at most the rows of the \<open>k\<close> batches of 500 committed before it, so no batch
  after the failed one is inserted: the rest of the run is aborted. A call that returns
  normally has inserted fewer rows than that, so it never reached the failing commit: a
  run that reaches it ends with the exception at the caller. What the caller gets is
  the exception or nothing; no number of inserted rows is part of it.
\<close>

theorem create_fake_addresses_failed_commit_aborts:
  assumes "commit_raises rt k"
    and "create_fake_addresses (FakeData_init fk) rt db how_many g = (r, db')"
  shows "length (user_address db') \<le> length (user_address db) + 500 * k
         \<and> (r = Inr () \<longrightarrow> length (user_address db') < length (user_address db) + 500 * k)"
proof -
  let ?self = "FakeData_init fk"
  have bs: "batch_size ?self = 500" by (simp add: FakeData_init_def)
  obtain r1 db1 where loop:
    "addresses_loop (nat (min how_many (limitation ?self))) ?self rt db 0 [] g = (r1, db1)"
    by (cases "addresses_loop (nat (min how_many (limitation ?self))) ?self rt db 0 [] g")
  have inv: "(\<forall>e. r1 = Inl e \<longrightarrow> length (user_address db1) \<le> length (user_address db) + 500 * k)
     \<and> (\<forall>batch' c' g'. r1 = Inr (batch', c', g') \<longrightarrow>
        c' \<le> k \<and> length batch' < 500
        \<and> length (user_address db1) \<le> length (user_address db) + 500 * c')"
    using addresses_loop_abort[OF assms(1) _ loop] by (simp add: bs)
  show ?thesis
  proof (cases r1)
    case (Inl e)
    with assms(2) loop inv show ?thesis
      by (auto simp: create_fake_addresses_def Let_def)
  next
    case (Inr res)
    obtain batch' c' g' where res: "res = (batch', c', g')" by (cases res)
    with inv Inr have c': "c' \<le> k" and len: "length batch' < 500"
      and rows: "length (user_address db1) \<le> length (user_address db) + 500 * c'"
      by auto
    show ?thesis
    proof (cases "commit_raises rt c'")
      case True
      with assms(2) loop Inr res have "r = Inl DBAPIError" "db' = db1"
        by (auto simp: create_fake_addresses_def Let_def)
      with rows c' show ?thesis
        by (auto intro: order_trans)
    next
      case False
      with assms(1) c' have "Suc c' \<le> k" by (cases "c' = k") auto
      then have "500 * c' + 500 \<le> 500 * k" by simp
      moreover from False assms(2) loop Inr res
      have "length (user_address db') \<le> length (user_address db1) + length batch'"
        by (auto simp: create_fake_addresses_def Let_def length_add_addresses)
      ultimately show ?thesis using rows len by linarith
    qed
  qed
qed

theorem create_fake_addresses_failed_commit_aborts_witness:
  "commit_raises runtime_A 0
   \<and> create_fake_addresses (FakeData_init demo_faker) runtime_A (demo_db\<lparr> user_address := [] \<rparr>) 1
        (\<lambda>_. 101) = (Inl DBAPIError, demo_db\<lparr> user_address := [] \<rparr>)
   \<and> length (user_address (demo_db\<lparr> user_address := [] \<rparr>)) = 0
   \<and> commit_raises runtime_B 1
   \<and> fst (create_fake_addresses (FakeData_init demo_faker) runtime_B
            (demo_db\<lparr> user_address := [] \<rparr>) 1 (\<lambda>_. 101)) = Inr ()
   \<and> length (user_address (snd (create_fake_addresses (FakeData_init demo_faker) runtime_B
            (demo_db\<lparr> user_address := [] \<rparr>) 1 (\<lambda>_. 101)))) = 1
   \<and> length (user_address (snd (create_fake_addresses (FakeData_init demo_faker) runtime_B
            (demo_db\<lparr> user_address := [] \<rparr>) 1 (\<lambda>_. 101))))
        < length (user_address (demo_db\<lparr> user_address := [] \<rparr>)) + 500 * 1"
proof -
  have a: "commit_raises runtime_A 0" and b: "commit_raises runtime_B 1"
    by (simp_all add: runtime_A_def runtime_B_def)
  have run_a: "create_fake_addresses (FakeData_init demo_faker) runtime_A
        (demo_db\<lparr> user_address := [] \<rparr>) 1 (\<lambda>_. 101) = (Inl DBAPIError, demo_db\<lparr> user_address := [] \<rparr>)"
    unfolding runtime_A_def create_fake_addresses_small by simp
  obtain db' where run_b: "create_fake_addresses (FakeData_init demo_faker) runtime_B
        (demo_db\<lparr> user_address := [] \<rparr>) 1 (\<lambda>_. 101) = (Inr (), db')"
    and rows_b: "length (user_address db') = 1"
    unfolding runtime_B_def create_fake_addresses_small by simp
  from create_fake_addresses_failed_commit_aborts[OF a run_a]
  have "length (user_address (demo_db\<lparr> user_address := [] \<rparr>)) = 0"
    by simp
  moreover from create_fake_addresses_failed_commit_aborts[OF b run_b]
  have "length (user_address db') < length (user_address (demo_db\<lparr> user_address := [] \<rparr>)) + 500 * 1"
    by simp
  ultimately show ?thesis using a b run_a run_b rows_b by simp
qed

text \<open>
  C8, as the claim states it, fails. Two calls with the same database, count and draws,
  differing only in which commit raises: both end with the same exception at the caller,
  the first having inserted no row and the second 500. So the number of rows inserted is
  not reported to the caller.
\<close>

theorem create_fake_addresses_reports_no_count:
  "fst (create_fake_addresses (FakeData_init demo_faker) runtime_A crowd_db 501 (robin 0 0))
     = Inl DBAPIError
   \<and> fst (create_fake_addresses (FakeData_init demo_faker) runtime_B crowd_db 501 (robin 0 0))
     = Inl DBAPIError
   \<and> length (user_address (snd (create_fake_addresses (FakeData_init demo_faker) runtime_A
        crowd_db 501 (robin 0 0)))) = length (user_address crowd_db)
   \<and> length (user_address (snd (create_fake_addresses (FakeData_init demo_faker) runtime_B
        crowd_db 501 (robin 0 0)))) = length (user_address crowd_db) + 500"
  by (simp add: crowd_run_A crowd_run_B rows_crowd_run_B) (simp add: crowd_db_def)

section \<open>Properties of the schema\<close>

subsection \<open>The engine: lookups, violations, INSERT\<close>

lemmas class_defs = Category_class_def ProductCategory_class_def WishlistItem_class_def
  Order_class_def OrderItem_class_def Payment_class_def Product_class_def Review_class_def
  ShoppingCart_class_def User_class_def UserAddress_class_def Wishlist_class_def

lemmas column_defs = mapped_column_def id_column_def timestamp_default_def
  timestamp_server_default_def ForeignKey_def relationship_def

lemma tablenames:
  "map tablename metadata = [''categories'', ''products_categories'', ''wishlist_items'',
     ''orders'', ''order_items'', ''payments'', ''products'', ''reviews'', ''shopping_cart'',
     ''users'', ''user_address'', ''wishlists'']"
  by (simp add: metadata_def class_defs)

lemma find_table_metadata:
  "find_table metadata ''shopping_cart'' = Some ShoppingCart_class"
  "find_table metadata ''products'' = Some Product_class"
  "find_table metadata ''reviews'' = Some Review_class"
  "find_table metadata ''products_categories'' = Some ProductCategory_class"
  by (simp_all add: find_table_def metadata_def class_defs)

lemma first_violation_None: "first_violation cs = None \<longleftrightarrow> (\<forall>c \<in> set cs. c = None)"
  unfolding first_violation_def
  by (induction cs) (auto simp: List.map_filter_simps split: option.splits)

lemma map_of_new_row:
  "map_of (new_row now' m rows r) n =
     map_option (insert_value now' rows r) (find (\<lambda>c. cname c = n) (columns m))"
proof -
  have "map_of (map (\<lambda>c. (cname c, f c)) cs) n = map_option f (find (\<lambda>c. cname c = n) cs)"
    for f :: "column \<Rightarrow> val" and cs
    by (induction cs) auto
  then show ?thesis by (simp add: new_row_def)
qed

lemma getcol_new_row:
  "getcol (new_row now' m rows r) n =
     (case find (\<lambda>c. cname c = n) (columns m) of
        None \<Rightarrow> Null
      | Some c \<Rightarrow> insert_value now' rows r c)"
  by (simp add: getcol_def map_of_new_row split: option.splits)

lemma insert_value_plain:
  "\<not> (primary_key c \<and> autoincrement c) \<Longrightarrow> default' c = NoDefault \<Longrightarrow>
   server_default c = NoDefault \<Longrightarrow> insert_value now' rows r c = getcol r (cname c)"
  by (auto simp: insert_value_def getcol_def split: option.splits)



lemma not_null_violation_None:
  "not_null_violation m r = None \<longleftrightarrow>
     (\<forall>c \<in> set (columns m). nullable c \<or> getcol r (cname c) \<noteq> Null)"
  by (auto simp: not_null_violation_def find_None_iff)

lemma type_violation_None:
  "type_violation m r = None \<longleftrightarrow> (\<forall>c \<in> set (columns m). fits (ctype c) (getcol r (cname c)))"
  by (auto simp: type_violation_def find_None_iff)


lemma unique_column_violation_None:
  "unique_column_violation m rows r = None \<longleftrightarrow>
     (\<forall>c \<in> set (columns m). unique c \<longrightarrow> \<not> list_ex (same_key [cname c] r) rows)"
  by (auto simp: unique_column_violation_def find_None_iff)


lemma violation_None:
  "violation db m r = None \<longleftrightarrow>
     not_null_violation m r = None \<and> type_violation m r = None \<and> check_violation m r = None
     \<and> primary_key_violation m (db (tablename m)) r = None
     \<and> unique_column_violation m (db (tablename m)) r = None
     \<and> unique_constraint_violation m (db (tablename m)) r = None
     \<and> foreign_key_violation db m r = None"
  by (simp add: violation_def first_violation_None)

text \<open>An INSERT is rejected with the store as it was, or appends the new row.\<close>

lemma insert_row_cases:
  assumes "find_table md tn = Some m"
  shows "insert_row md now' db tn r =
     (case violation db m (new_row now' m (db tn) r) of
        Some e \<Rightarrow> (Inl e, db)
      | None \<Rightarrow> (Inr (new_row now' m (db tn) r),
                 db(tn := db tn @ [new_row now' m (db tn) r])))"
  by (simp add: insert_row_def assms Let_def)

lemma same_keyI: "(\<And>c. c \<in> set cs \<Longrightarrow> getcol r c \<noteq> Null \<and> getcol r' c = getcol r c) \<Longrightarrow> same_key cs r r'"
  by (simp add: same_key_def list_all_iff)


lemma insert_row_other_table:
  "insert_row md now' db tn r = (res, db') \<Longrightarrow> tn' \<noteq> tn \<Longrightarrow> db' tn' = db tn'"
  by (auto simp: insert_row_def Let_def split: option.splits)

lemma insert_row_rejected: "insert_row md now' db tn r = (Inl e, db') \<Longrightarrow> db' = db"
  by (auto simp: insert_row_def Let_def split: option.splits)

lemma insert_row_accepted:
  assumes "find_table md tn = Some m" and "insert_row md now' db tn r = (Inr r', db')"
  shows "r' = new_row now' m (db tn) r \<and> violation db m r' = None \<and> db' = db(tn := db tn @ [r'])"
  using assms by (auto simp: insert_row_def Let_def split: option.splits)

lemma unique_together_append:
  assumes "unique_together cs rows"
    and "\<not> list_ex (same_key cs r) rows"
    and "\<forall>c \<in> set cs. getcol r c \<noteq> Null"
  shows "unique_together cs (rows @ [r])"
proof -
  have "map (getcol e) cs \<noteq> map (getcol r) cs" if "e \<in> set rows" for e
  proof
    assume "map (getcol e) cs = map (getcol r) cs"
    then have "\<forall>c \<in> set cs. getcol e c = getcol r c" by (simp add: map_eq_conv)
    with assms(3) have "same_key cs r e" by (simp add: same_key_def list_all_iff)
    with that assms(2) show False by (auto simp: list_ex_iff)
  qed
  note differs = this
  have "map (getcol r) cs \<notin> (\<lambda>r. map (getcol r) cs) ` set rows"
  proof
    assume "map (getcol r) cs \<in> (\<lambda>r. map (getcol r) cs) ` set rows"
    then obtain e where e: "e \<in> set rows" and eq: "map (getcol r) cs = map (getcol e) cs"
      by (elim imageE)
    from differs[OF e] eq[symmetric] show False by (rule notE)
  qed
  with assms(1) show ?thesis by (simp add: unique_together_def)
qed

text \<open>A key that a constraint of the table guards stays unique under INSERT.\<close>

lemma insert_row_keeps_unique:
  assumes table: "find_table md t = Some m"
    and guarded: "\<And>r'. violation db m r' = None \<Longrightarrow>
        \<not> list_ex (same_key cs r') (db (tablename m)) \<and> (\<forall>c \<in> set cs. getcol r' c \<noteq> Null)"
    and name: "tablename m = t"
    and run: "insert_row md now' db tn r = (res, db')"
    and inv: "unique_together cs (db t)"
  shows "unique_together cs (db' t)"
proof (cases "tn = t")
  case False
  with insert_row_other_table[OF run, of t] inv show ?thesis by simp
next
  case True
  show ?thesis
  proof (cases res)
    case (Inl e)
    with run inv show ?thesis by (auto dest: insert_row_rejected)
  next
    case (Inr r')
    with run True have "insert_row md now' db t r = (Inr r', db')"
      by simp
    from insert_row_accepted[OF table this]
    have ok: "violation db m r' = None" and db': "db' = db(t := db t @ [r'])"
      by blast+
    from guarded[OF ok] name inv show ?thesis
      by (simp add: db' unique_together_append)
  qed
qed


subsection \<open>The shopping cart: one row per user and product\<close>











subsection \<open>Products: sku and slug\<close>

lemma product_new_row_keys:
  "getcol (new_row now' Product_class rows r) ''sku'' = getcol r ''sku''"
  "getcol (new_row now' Product_class rows r) ''slug'' = getcol r ''slug''"
  by (simp_all add: getcol_new_row Product_class_def column_defs insert_value_plain)

lemma product_guarded:
  assumes "violation db Product_class r' = None"
  shows "\<not> list_ex (same_key [''sku''] r') (db (tablename Product_class))
         \<and> (\<forall>c \<in> set [''sku'']. getcol r' c \<noteq> Null)"
    and "\<not> list_ex (same_key [''slug''] r') (db (tablename Product_class))
         \<and> (\<forall>c \<in> set [''slug'']. getcol r' c \<noteq> Null)"
proof -
  from assms have nn: "not_null_violation Product_class r' = None"
    and uc: "unique_column_violation Product_class (db (tablename Product_class)) r' = None"
    by (simp_all add: violation_None)
  from nn have "getcol r' ''sku'' \<noteq> Null" "getcol r' ''slug'' \<noteq> Null"
    unfolding not_null_violation_None
    by (simp_all add: Product_class_def column_defs)
  moreover from uc
  have "\<not> list_ex (same_key [''sku''] r') (db (tablename Product_class))"
    "\<not> list_ex (same_key [''slug''] r') (db (tablename Product_class))"
    unfolding unique_column_violation_None
    by (simp_all add: Product_class_def column_defs)
  ultimately show "\<not> list_ex (same_key [''sku''] r') (db (tablename Product_class))
         \<and> (\<forall>c \<in> set [''sku'']. getcol r' c \<noteq> Null)"
    and "\<not> list_ex (same_key [''slug''] r') (db (tablename Product_class))
         \<and> (\<forall>c \<in> set [''slug'']. getcol r' c \<noteq> Null)"
    by simp_all
qed

lemma product_duplicate_rejected:
  assumes "e \<in> set (db ''products'')"
    and "getcol e ''sku'' = getcol r ''sku'' \<or> getcol e ''slug'' = getcol r ''slug''"
  shows "\<exists>err. insert_row metadata now' db ''products'' r = (Inl err, db)"
proof -
  let ?r = "new_row now' Product_class (db ''products'') r"
  have name: "tablename Product_class = ''products''"
    by (simp add: Product_class_def)
  have "violation db Product_class ?r \<noteq> None"
  proof
    assume ok: "violation db Product_class ?r = None"
    from product_guarded[OF ok] name
    have sku: "\<not> list_ex (same_key [''sku''] ?r) (db ''products'')" "getcol ?r ''sku'' \<noteq> Null"
      and slug: "\<not> list_ex (same_key [''slug''] ?r) (db ''products'')" "getcol ?r ''slug'' \<noteq> Null"
      by simp_all
    from assms(2) show False
    proof
      assume "getcol e ''sku'' = getcol r ''sku''"
      with sku(2) have "same_key [''sku''] ?r e"
        by (simp add: same_key_def product_new_row_keys)
      with assms(1) sku(1) show False by (auto simp: list_ex_iff)
    next
      assume "getcol e ''slug'' = getcol r ''slug''"
      with slug(2) have "same_key [''slug''] ?r e"
        by (simp add: same_key_def product_new_row_keys)
      with assms(1) slug(1) show False by (auto simp: list_ex_iff)
    qed
  qed
  then show ?thesis
    by (auto simp: insert_row_cases[OF find_table_metadata(2)])
qed

text \<open>
  C6. The products of the catalog have pairwise different \<open>sku\<close> values and pairwise
  different \<open>slug\<close> values: an INSERT into any table keeps both so, and an INSERT of a
  product whose \<open>sku\<close> or whose \<open>slug\<close> a product of the catalog already has fails,
  the store staying as it was.
\<close>

theorem product_sku_and_slug_unique:
  "(\<forall>tn res db'. insert_row metadata now' db tn r = (res, db') \<longrightarrow>
       unique_together [''sku''] (db ''products'') \<and> unique_together [''slug''] (db ''products'') \<longrightarrow>
       unique_together [''sku''] (db' ''products'') \<and> unique_together [''slug''] (db' ''products''))
   \<and> (\<forall>e \<in> set (db ''products'').
         getcol e ''sku'' = getcol r ''sku'' \<or> getcol e ''slug'' = getcol r ''slug'' \<longrightarrow>
         (\<exists>err. insert_row metadata now' db ''products'' r = (Inl err, db)))"
proof (intro conjI allI impI ballI)
  fix tn res db'
  assume run: "insert_row metadata now' db tn r = (res, db')"
    and inv: "unique_together [''sku''] (db ''products'') \<and> unique_together [''slug''] (db ''products'')"
  have name: "tablename Product_class = ''products''"
    by (simp add: Product_class_def)
  from inv have sku: "unique_together [''sku''] (db ''products'')"
    and slug: "unique_together [''slug''] (db ''products'')"
    by simp_all
  show "unique_together [''sku''] (db' ''products'')"
  proof (rule insert_row_keeps_unique[of metadata "''products''" Product_class db "[''sku'']",
        OF find_table_metadata(2) _ name run sku])
    fix r'
    assume "violation db Product_class r' = None"
    then show "\<not> list_ex (same_key [''sku''] r') (db (tablename Product_class))
               \<and> (\<forall>c \<in> set [''sku'']. getcol r' c \<noteq> Null)"
      by (rule product_guarded)
  qed
  show "unique_together [''slug''] (db' ''products'')"
  proof (rule insert_row_keeps_unique[of metadata "''products''" Product_class db "[''slug'']",
        OF find_table_metadata(2) _ name run slug])
    fix r'
    assume "violation db Product_class r' = None"
    then show "\<not> list_ex (same_key [''slug''] r') (db (tablename Product_class))
               \<and> (\<forall>c \<in> set [''slug'']. getcol r' c \<noteq> Null)"
      by (rule product_guarded)
  qed
next
  fix e
  assume "e \<in> set (db ''products'')"
    and "getcol e ''sku'' = getcol r ''sku'' \<or> getcol e ''slug'' = getcol r ''slug''"
  then show "\<exists>err. insert_row metadata now' db ''products'' r = (Inl err, db)"
    by (rule product_duplicate_rejected)
qed

lemma shop_products: "shop ''products'' =
   [[(''id'', IntV 1), (''sku'', StrV ''SKU-001''), (''name'', StrV ''P''),
     (''price'', IntV 10000), (''slug'', StrV ''p'')]]"
  by (simp add: shop_def)

lemma product_insert_same_sku: "fst (insert_row metadata 99 shop ''products'' (product_row ''SKU-001'' ''q''))
   = Inl (UniqueViolation ''sku'')"
  by code_simp

lemma product_insert_same_slug: "fst (insert_row metadata 99 shop ''products'' (product_row ''SKU-002'' ''p''))
   = Inl (UniqueViolation ''slug'')"
  by code_simp

lemma product_insert_new: "fst (insert_row metadata 99 shop ''products'' (product_row ''SKU-002'' ''q''))
   = Inr [(''id'', IntV 2), (''sku'', StrV ''SKU-002''), (''name'', StrV ''Q''),
      (''description'', Null), (''brand'', Null), (''price'', IntV 500),
      (''discount_price'', Null), (''stock'', IntV 0),
      (''is_active'', BoolV True), (''slug'', StrV ''q''),
      (''meta_title'', Null), (''meta_description'', Null),
      (''created_at'', IntV 99), (''updated_at'', IntV 99)]"
  by code_simp

theorem product_sku_and_slug_unique_witness:
  "unique_together [''sku''] (shop ''products'') \<and> unique_together [''slug''] (shop ''products'')
   \<and> (\<exists>r'. fst (insert_row metadata 99 shop ''products'' (product_row ''SKU-002'' ''q'')) = Inr r')
   \<and> unique_together [''sku'']
        (snd (insert_row metadata 99 shop ''products'' (product_row ''SKU-002'' ''q'')) ''products'')
   \<and> unique_together [''slug'']
        (snd (insert_row metadata 99 shop ''products'' (product_row ''SKU-002'' ''q'')) ''products'')
   \<and> insert_row metadata 99 shop ''products'' (product_row ''SKU-001'' ''q'')
        = (Inl (UniqueViolation ''sku''), shop)
   \<and> insert_row metadata 99 shop ''products'' (product_row ''SKU-002'' ''p'')
        = (Inl (UniqueViolation ''slug''), shop)"
proof -
  let ?e = "[(''id'', IntV 1), (''sku'', StrV ''SKU-001''), (''name'', StrV ''P''),
     (''price'', IntV 10000), (''slug'', StrV ''p'')]"
  have mem: "?e \<in> set (shop ''products'')"
    by (simp add: shop_products)
  have inv: "unique_together [''sku''] (shop ''products'') \<and> unique_together [''slug''] (shop ''products'')"
    by (simp add: shop_products unique_together_def)
  have sku: "getcol ?e ''sku'' = getcol (product_row ''SKU-001'' ''q'') ''sku''"
    and slug: "getcol ?e ''slug'' = getcol (product_row ''SKU-002'' ''p'') ''slug''"
    by (simp_all add: getcol_def product_row_def)
  from product_sku_and_slug_unique[of 99 shop "product_row ''SKU-001'' ''q''"] mem sku
  obtain err1 where r1: "insert_row metadata 99 shop ''products'' (product_row ''SKU-001'' ''q'')
        = (Inl err1, shop)"
    by blast
  from product_sku_and_slug_unique[of 99 shop "product_row ''SKU-002'' ''p''"] mem slug
  obtain err2 where r2: "insert_row metadata 99 shop ''products'' (product_row ''SKU-002'' ''p'')
        = (Inl err2, shop)"
    by blast
  from r1 product_insert_same_sku r2 product_insert_same_slug have errs: "err1 = UniqueViolation ''sku''" "err2 = UniqueViolation ''slug''"
    by simp_all
  from product_sku_and_slug_unique[of 99 shop "product_row ''SKU-002'' ''q''"] inv
  have kept: "unique_together [''sku'']
        (snd (insert_row metadata 99 shop ''products'' (product_row ''SKU-002'' ''q'')) ''products'')
   \<and> unique_together [''slug'']
        (snd (insert_row metadata 99 shop ''products'' (product_row ''SKU-002'' ''q'')) ''products'')"
    by (metis prod.collapse)
  from inv product_insert_new kept r1 r2 errs show ?thesis by simp
qed

subsection \<open>Primary keys\<close>














lemma shop_reviews: "shop ''reviews'' =
   [[(''id'', IntV 1), (''user_id'', IntV 1), (''product_id'', IntV 1), (''rating'', IntV 5)],
    [(''id'', IntV 2), (''user_id'', IntV 2), (''product_id'', IntV 1), (''rating'', IntV 4)]]"
  by (simp add: shop_def)


subsection \<open>Reviews: the rating\<close>



end
